theory Spec2Isabelle
  imports Complex_Main "HOL-Library.Sublist" "HOL-Library.AList"
begin

section \<open>JavaScript values\<close>

text \<open>
  The performance tester computes with JavaScript numbers. The scores of the audit are
  whole numbers of small magnitude and quotients of two such numbers, and the frame rate
  is computed from time stamps; for these the development computes with exact rationals
  and keeps the three non-finite results of a division (\<open>0/0\<close>, \<open>x/0\<close>) as separate
  values, so that a division by zero of the source is a visible branch of the model. The
  sizes and durations of resources are large or fractional: their sums and quotients are
  rounded to double precision after every operation (\<open>js_plus\<close>, \<open>js_quot\<close> below). The
  negative zero is not distinguished from zero.
\<close>

datatype jsnum = Num rat | NaN | PosInfinity | NegInfinity

text \<open>\<open>Math.round\<close>: the nearest whole number, a tie going towards plus infinity.\<close>

definition Math_round :: "rat \<Rightarrow> rat" where
  "Math_round x = of_int \<lfloor>x + 1 / 2\<rfloor>"

fun js_round :: "jsnum \<Rightarrow> jsnum" where
  "js_round (Num x) = Num (Math_round x)"
| "js_round v = v"

fun js_add :: "jsnum \<Rightarrow> jsnum \<Rightarrow> jsnum" where
  "js_add (Num a) (Num b) = Num (a + b)"
| "js_add NaN _ = NaN"
| "js_add _ NaN = NaN"
| "js_add PosInfinity NegInfinity = NaN"
| "js_add NegInfinity PosInfinity = NaN"
| "js_add PosInfinity _ = PosInfinity"
| "js_add NegInfinity _ = NegInfinity"
| "js_add (Num a) v = v"

fun js_div :: "jsnum \<Rightarrow> jsnum \<Rightarrow> jsnum" where
  "js_div (Num a) (Num b) =
     (if b = 0 then (if a = 0 then NaN else if 0 < a then PosInfinity else NegInfinity)
      else Num (a / b))"
| "js_div NaN _ = NaN"
| "js_div _ NaN = NaN"
| "js_div (Num a) _ = Num 0"
| "js_div PosInfinity (Num b) = (if 0 \<le> b then PosInfinity else NegInfinity)"
| "js_div NegInfinity (Num b) = (if 0 \<le> b then NegInfinity else PosInfinity)"
| "js_div _ _ = NaN"

text \<open>
  Double precision. A finite double is a whole multiple of the unit of its binade, with
  fewer than \<open>2^53\<close> units; the units are the powers of two from \<open>2^-1074\<close> to \<open>2^971\<close>.
  \<open>ulp\<close> finds the unit for a magnitude by doubling from the least one, \<open>round_double\<close>
  rounds to the nearest multiple of it, a tie going to the even multiple, and a result
  of magnitude \<open>2^1024\<close> or more is infinite.
\<close>

definition round_half_even :: "rat \<Rightarrow> int" where
  "round_half_even r =
     (let f = \<lfloor>r\<rfloor>; d = r - of_int f
      in if d < 1 / 2 then f else if 1 / 2 < d then f + 1 else if even f then f else f + 1)"

fun ulp_search :: "nat \<Rightarrow> rat \<Rightarrow> rat \<Rightarrow> rat" where
  "ulp_search 0 u a = u"
| "ulp_search (Suc k) u a = (if a < u * 2 ^ 53 then u else ulp_search k (2 * u) a)"

definition ulp :: "rat \<Rightarrow> rat" where
  "ulp x = ulp_search 2045 (1 / 2 ^ 1074) \<bar>x\<bar>"

definition round_double :: "rat \<Rightarrow> rat" where
  "round_double x = ulp x * of_int (round_half_even (x / ulp x))"

definition to_double :: "rat \<Rightarrow> jsnum" where
  "to_double x =
     (let y = round_double x
      in if 2 ^ 1024 \<le> y then PosInfinity else if y \<le> - (2 ^ 1024) then NegInfinity else Num y)"

text \<open>The sum and the quotient of two doubles.\<close>

fun js_plus :: "jsnum \<Rightarrow> jsnum \<Rightarrow> jsnum" where
  "js_plus (Num a) (Num b) = to_double (a + b)"
| "js_plus a b = js_add a b"

fun js_quot :: "jsnum \<Rightarrow> jsnum \<Rightarrow> jsnum" where
  "js_quot (Num a) (Num b) = (if b = 0 then js_div (Num a) (Num b) else to_double (a / b))"
| "js_quot a b = js_div a b"

text \<open>
  An object literal that receives string keys is an association list: \<open>Object.values\<close>
  lists the values in the order in which the keys were first assigned, and assigning to
  a key that exists replaces its value in place (\<^const>\<open>AList.update\<close>). The keys of
  the source are names of checks and initiator types of resources (\<open>script\<close>, \<open>link\<close>,
  \<open>img\<close>, \<open>css\<close>, \<open>fetch\<close> and the like). A key that is an array index would be
  listed first; no statement below depends on the order of the types of resources. A
  type that names a property which an empty object inherits is treated where the
  resources are grouped.
\<close>

type_synonym 'v obj = "(string \<times> 'v) list"

definition Object_values :: "'v obj \<Rightarrow> 'v list" where
  "Object_values ob = map snd ob"

definition Object_keys :: "'v obj \<Rightarrow> string list" where
  "Object_keys ob = map fst ob"

datatype error = TypeError

section \<open>The audit structure\<close>

text \<open>
  The fields that a check returns beside its score (\<open>issues\<close>, \<open>size\<close>, \<open>warning\<close>,
  \<open>secure\<close>, \<open>errors\<close>, \<open>deprecated\<close>, \<open>missing\<close>, \<open>unlabeled\<close>).
\<close>

datatype detail =
    Issues "string list"
  | Size nat
  | Warning "string option"
  | Secure bool
  | ConsoleErrors "string list"
  | Deprecated "string list"
  | MissingCount nat
  | Unlabeled nat
  | MissingNames "string list"
  | StructureErrors nat

text \<open>The score of a result is \<open>None\<close> when the object has no \<open>score\<close> field.\<close>

record AuditResult =
  score :: "rat option"
  detail :: detail

record audit =
  audit_performance :: "AuditResult obj"
  audit_bestPractices :: "AuditResult obj"
  audit_accessibility :: "AuditResult obj"
  audit_seo :: "AuditResult obj"

record ScoreSet =
  performance :: jsnum
  accessibility :: jsnum
  bestPractices :: jsnum
  seo :: jsnum
  overall :: jsnum

section \<open>The host document\<close>

text \<open>
  The checks read the document through \<open>querySelectorAll\<close> and \<open>querySelector\<close>. The
  document is the list of its elements in tree order, which is the order in which
  \<open>querySelectorAll\<close> lists its matches. An element carries its lower-case tag name,
  its attributes, its text content and the reflected properties that the checks read:
  \<open>href\<close> and \<open>src\<close> (the resolved address, empty when there is none) and the two
  widths of an image.
\<close>

record element =
  localName :: string
  attributes :: "string obj"
  textContent :: string
  href :: string
  src :: string
  naturalWidth :: nat
  offsetWidth :: nat

record page =
  document :: "element list"
  protocol :: string

definition getAttribute :: "element \<Rightarrow> string \<Rightarrow> string option" where
  "getAttribute el a = map_of (attributes el) a"

text \<open>The \<open>alt\<close> property of an image reflects the attribute; it is empty without one.\<close>

definition alt :: "element \<Rightarrow> string" where
  "alt el = (case getAttribute el ''alt'' of None \<Rightarrow> [] | Some v \<Rightarrow> v)"

definition toUpperCase_char :: "char \<Rightarrow> char" where
  "toUpperCase_char c =
     (let n = (of_char c :: nat) in if 97 \<le> n \<and> n \<le> 122 then char_of (n - 32) else c)"

text \<open>\<open>tagName\<close> of an HTML element is its tag name in upper case.\<close>

definition tagName :: "element \<Rightarrow> string" where
  "tagName el = map toUpperCase_char (localName el)"

text \<open>\<open>String.prototype.includes\<close>.\<close>

definition str_includes :: "string \<Rightarrow> string \<Rightarrow> bool" where
  "str_includes s pat = sublist pat s"

definition is_space :: "char \<Rightarrow> bool" where
  "is_space c = (c \<in> set [CHR '' '', CHR 0x09, CHR 0x0A, CHR 0x0B, CHR 0x0C, CHR 0x0D])"

text \<open>\<open>String.prototype.trim\<close>, on the white space of ASCII.\<close>

definition trim :: "string \<Rightarrow> string" where
  "trim s = rev (dropWhile is_space (rev (dropWhile is_space s)))"

text \<open>
  The selectors of the source: a comma-separated group of simple selectors, each a tag
  name, a tag name with an attribute test, or an attribute test alone. Attribute values
  are compared as they are written.
\<close>

datatype selector =
    Tag string
  | TagAttrEq string string string
  | TagHasAttr string string
  | TagAttrContains string string string
  | HasAttr string

fun matches :: "selector \<Rightarrow> element \<Rightarrow> bool" where
  "matches (Tag t) el = (localName el = t)"
| "matches (TagAttrEq t a v) el = (localName el = t \<and> getAttribute el a = Some v)"
| "matches (TagHasAttr t a) el = (localName el = t \<and> getAttribute el a \<noteq> None)"
| "matches (TagAttrContains t a v) el =
     (localName el = t \<and> (case getAttribute el a of None \<Rightarrow> False | Some w \<Rightarrow> str_includes w v))"
| "matches (HasAttr a) el = (getAttribute el a \<noteq> None)"

definition querySelectorAll :: "element list \<Rightarrow> selector list \<Rightarrow> element list" where
  "querySelectorAll doc sel = filter (\<lambda>el. list_ex (\<lambda>s. matches s el) sel) doc"

definition querySelector :: "element list \<Rightarrow> selector list \<Rightarrow> element option" where
  "querySelector doc sel = (case querySelectorAll doc sel of [] \<Rightarrow> None | el # _ \<Rightarrow> Some el)"

section \<open>Audit checks\<close>

definition checkImageOptimization :: "page \<Rightarrow> AuditResult" where
  "checkImageOptimization pg =
     (let images = querySelectorAll (document pg) [Tag ''img''];
          largeImages = filter (\<lambda>img. offsetWidth img * 2 < naturalWidth img) images
      in \<lparr>score = Some (if length largeImages = 0 then 100
                         else max 0 (100 - of_nat (length largeImages) * 20)),
          detail = Issues (map (\<lambda>img. ''Image '' @ [CHR 0x22] @ src img @ [CHR 0x22]
                                         @ '' is larger than needed'') largeImages)\<rparr>)"

definition checkCSSSize :: "page \<Rightarrow> AuditResult" where
  "checkCSSSize pg =
     (let stylesheets = querySelectorAll (document pg) [TagAttrEq ''link'' ''rel'' ''stylesheet''];
          totalSize = foldl (\<lambda>total sheet.
                         if href sheet \<noteq> [] \<and> \<not> str_includes (href sheet) ''fonts.googleapis.com''
                         then total + 5000 else total) (0::nat) stylesheets
      in \<lparr>score = Some (if totalSize < 10000 then 100
                         else max 0 (100 - (of_nat totalSize - 10000) / 1000)),
          detail = Size totalSize\<rparr>)"

definition checkJSSize :: "page \<Rightarrow> AuditResult" where
  "checkJSSize pg =
     (let scripts = querySelectorAll (document pg) [TagHasAttr ''script'' ''src''];
          totalSize = length scripts * 10000
      in \<lparr>score = Some (if totalSize < 30000 then 100
                         else max 0 (100 - (of_nat totalSize - 30000) / 1000)),
          detail = Size totalSize\<rparr>)"

definition checkFontLoading :: "page \<Rightarrow> AuditResult" where
  "checkFontLoading pg =
     (let fonts = querySelectorAll (document pg)
                    [TagAttrContains ''link'' ''href'' ''fonts.googleapis.com'']
      in \<lparr>score = Some (if length fonts \<le> 2 then 100 else 50),
          detail = Warning (if 2 < length fonts then Some ''Too many font requests'' else None)\<rparr>)"

definition checkHTTPS :: "page \<Rightarrow> AuditResult" where
  "checkHTTPS pg =
     \<lparr>score = Some (if protocol pg = ''https:'' then 100 else 0),
      detail = Secure (protocol pg = ''https:'')\<rparr>"

definition checkConsoleErrors :: "page \<Rightarrow> AuditResult" where
  "checkConsoleErrors pg = \<lparr>score = Some 100, detail = ConsoleErrors []\<rparr>"

definition checkDeprecatedAPI :: "page \<Rightarrow> AuditResult" where
  "checkDeprecatedAPI pg =
     (let deprecatedSelectors = [''applet'', ''marquee'', ''frameset'', ''frame''];
          found = filter (\<lambda>selector. querySelector (document pg) [Tag selector] \<noteq> None)
                    deprecatedSelectors
      in \<lparr>score = Some (if length found = 0 then 100 else 0), detail = Deprecated found\<rparr>)"

text \<open>
  The two coverage checks take the share of the elements exactly and round it once with
  \<open>Math.round\<close>.
\<close>

definition checkAltTags :: "page \<Rightarrow> AuditResult" where
  "checkAltTags pg =
     (let images = querySelectorAll (document pg) [Tag ''img''];
          missingAlt = filter (\<lambda>img. alt img = []) images
      in \<lparr>score = Some (if length images = 0 then 100
                         else Math_round ((1 - of_nat (length missingAlt) / of_nat (length images))
                                          * 100)),
          detail = MissingCount (length missingAlt)\<rparr>)"

text \<open>\<open>!el.getAttribute(a)\<close>: the attribute is absent or empty.\<close>

definition no_text :: "string option \<Rightarrow> bool" where
  "no_text v = (case v of None \<Rightarrow> True | Some s \<Rightarrow> s = [])"

definition checkAriaLabels :: "page \<Rightarrow> AuditResult" where
  "checkAriaLabels pg =
     (let interactiveElements = querySelectorAll (document pg)
                                  [Tag ''button'', Tag ''a'', Tag ''input'', HasAttr ''role''];
          unlabeled = filter (\<lambda>el. no_text (getAttribute el ''aria-label'')
                                    \<and> trim (textContent el) = []
                                    \<and> no_text (getAttribute el ''title'')) interactiveElements
      in \<lparr>score = Some (if length interactiveElements = 0 then 100
                         else Math_round ((1 - of_nat (length unlabeled)
                                               / of_nat (length interactiveElements)) * 100)),
          detail = Unlabeled (length unlabeled)\<rparr>)"

definition checkColorContrast :: "page \<Rightarrow> AuditResult" where
  "checkColorContrast pg =
     \<lparr>score = Some 85,
      detail = Warning (Some ''Run detailed contrast check with browser tools'')\<rparr>"

definition checkMetaTags :: "page \<Rightarrow> AuditResult" where
  "checkMetaTags pg =
     (let requiredMeta = [''description'', ''viewport''];
          presentMeta = filter (\<lambda>meta. querySelector (document pg)
                                          [TagAttrEq ''meta'' ''name'' meta] \<noteq> None) requiredMeta
      in \<lparr>score = Some (Math_round (of_nat (length presentMeta) / of_nat (length requiredMeta)
                                     * 100)),
          detail = MissingNames (filter (\<lambda>meta. meta \<notin> set presentMeta) requiredMeta)\<rparr>)"

text \<open>
  \<open>parseInt\<close> of the second character of the tag name: the value of a decimal digit,
  and \<open>None\<close> (not a number) for any other character or when there is no second
  character.
\<close>

definition digit_value :: "char \<Rightarrow> nat option" where
  "digit_value c =
     (let n = (of_char c :: nat) in if 48 \<le> n \<and> n \<le> 57 then Some (n - 48) else None)"

definition heading_level :: "element \<Rightarrow> nat option" where
  "heading_level heading = (case tagName heading of _ # c # _ \<Rightarrow> digit_value c | _ \<Rightarrow> None)"

text \<open>
  One turn of the loop over the headings, on the pair of \<open>lastLevel\<close> and
  \<open>structureErrors\<close>. A comparison with a level that is not a number is false.
\<close>

definition heading_step :: "nat option \<times> nat \<Rightarrow> element \<Rightarrow> nat option \<times> nat" where
  "heading_step st heading =
     (let level = heading_level heading;
          jump = (case (level, fst st) of (Some l, Some lastLevel) \<Rightarrow> lastLevel + 1 < l
                                         | _ \<Rightarrow> False)
      in (level, if jump then snd st + 1 else snd st))"

definition checkHeadingStructure :: "page \<Rightarrow> AuditResult" where
  "checkHeadingStructure pg =
     (let headings = querySelectorAll (document pg)
                       [Tag ''h1'', Tag ''h2'', Tag ''h3'', Tag ''h4'', Tag ''h5'', Tag ''h6''];
          structureErrors = snd (foldl heading_step (Some 0, 0) headings)
      in \<lparr>score = Some (if length headings = 0 then 100
                         else max 0 (100 - of_nat structureErrors * 20)),
          detail = StructureErrors structureErrors\<rparr>)"

definition checkSemanticHTML :: "page \<Rightarrow> AuditResult" where
  "checkSemanticHTML pg =
     (let semanticElements = [''header'', ''nav'', ''main'', ''section'', ''article'', ''aside'',
                              ''footer''];
          present = filter (\<lambda>t. querySelector (document pg) [Tag t] \<noteq> None) semanticElements
      in \<lparr>score = Some (Math_round (of_nat (length present) / of_nat (length semanticElements)
                                     * 100)),
          detail = MissingNames (filter (\<lambda>t. t \<notin> set present) semanticElements)\<rparr>)"

section \<open>The metrics store\<close>

record PerformanceResourceTiming =
  entry_name :: string
  entry_duration :: rat
  transferSize :: "nat option"
  initiatorType :: string

record ResourceEntry =
  res_name :: string
  res_duration :: rat
  res_size :: nat
  res_type :: string

record summary =
  count :: nat
  totalSize :: jsnum
  averageTime :: jsnum
  items :: "ResourceEntry list"

text \<open>
  The entries of the store that the functions below write; an entry is \<open>None\<close> until
  it has been written.
\<close>

record metrics =
  resources :: "ResourceEntry list option"
  resourceSummary :: "summary obj option"
  fps :: "jsnum option"
  audit :: "audit option"

definition runAudit :: "page \<Rightarrow> metrics \<Rightarrow> audit \<times> metrics" where
  "runAudit pg m =
     (let a = \<lparr>audit_performance = [], audit_bestPractices = [], audit_accessibility = [],
               audit_seo = []\<rparr>;
          a = a\<lparr>audit_performance :=
                  AList.update ''imageOptimization'' (checkImageOptimization pg) (audit_performance a)\<rparr>;
          a = a\<lparr>audit_performance :=
                  AList.update ''cssSize'' (checkCSSSize pg) (audit_performance a)\<rparr>;
          a = a\<lparr>audit_performance :=
                  AList.update ''jsSize'' (checkJSSize pg) (audit_performance a)\<rparr>;
          a = a\<lparr>audit_performance :=
                  AList.update ''fontLoading'' (checkFontLoading pg) (audit_performance a)\<rparr>;
          a = a\<lparr>audit_bestPractices :=
                  AList.update ''https'' (checkHTTPS pg) (audit_bestPractices a)\<rparr>;
          a = a\<lparr>audit_bestPractices :=
                  AList.update ''consoleErrors'' (checkConsoleErrors pg) (audit_bestPractices a)\<rparr>;
          a = a\<lparr>audit_bestPractices :=
                  AList.update ''deprecatedAPI'' (checkDeprecatedAPI pg) (audit_bestPractices a)\<rparr>;
          a = a\<lparr>audit_accessibility :=
                  AList.update ''altTags'' (checkAltTags pg) (audit_accessibility a)\<rparr>;
          a = a\<lparr>audit_accessibility :=
                  AList.update ''ariaLabels'' (checkAriaLabels pg) (audit_accessibility a)\<rparr>;
          a = a\<lparr>audit_accessibility :=
                  AList.update ''colorContrast'' (checkColorContrast pg) (audit_accessibility a)\<rparr>;
          a = a\<lparr>audit_seo := AList.update ''metaTags'' (checkMetaTags pg) (audit_seo a)\<rparr>;
          a = a\<lparr>audit_seo :=
                  AList.update ''headingStructure'' (checkHeadingStructure pg) (audit_seo a)\<rparr>;
          a = a\<lparr>audit_seo := AList.update ''semanticHTML'' (checkSemanticHTML pg) (audit_seo a)\<rparr>
      in (a, m\<lparr>audit := Some a\<rparr>))"

section \<open>Score aggregator\<close>

text \<open>\<open>item.score || 0\<close>: an absent score and the score zero both give zero.\<close>

definition score_or_0 :: "AuditResult \<Rightarrow> rat" where
  "score_or_0 item = (case score item of None \<Rightarrow> 0 | Some s \<Rightarrow> (if s = 0 then 0 else s))"

definition calculateCategoryScore :: "AuditResult obj \<Rightarrow> jsnum" where
  "calculateCategoryScore category =
     (let scores = map score_or_0 (Object_values category)
      in js_round (js_div (Num (foldl (\<lambda>sum s. sum + s) 0 scores))
                          (Num (of_nat (length scores)))))"

definition calculateScores :: "metrics \<Rightarrow> ScoreSet" where
  "calculateScores m =
     (let scores = \<lparr>performance = Num 85, accessibility = Num 90, bestPractices = Num 88,
                    seo = Num 92, overall = Num 89\<rparr>
      in case audit m of
           None \<Rightarrow> scores
         | Some a \<Rightarrow>
             (let scores = scores\<lparr>performance := calculateCategoryScore (audit_performance a)\<rparr>;
                  scores = scores\<lparr>accessibility := calculateCategoryScore (audit_accessibility a)\<rparr>;
                  scores = scores\<lparr>bestPractices := calculateCategoryScore (audit_bestPractices a)\<rparr>;
                  scores = scores\<lparr>seo := calculateCategoryScore (audit_seo a)\<rparr>
              in scores\<lparr>overall :=
                   js_round (js_div (js_add (js_add (js_add (performance scores)
                                                            (accessibility scores))
                                                    (bestPractices scores))
                                            (seo scores))
                                    (Num 4))\<rparr>))"

section \<open>Recommendation generator\<close>

text \<open>
  \<open>category.check.score < bound\<close>: reading \<open>score\<close> of a check that the category does
  not have throws a \<open>TypeError\<close>; an absent score is not below any bound.
\<close>

definition score_below :: "AuditResult obj \<Rightarrow> string \<Rightarrow> rat \<Rightarrow> error + bool" where
  "score_below category check bound =
     (case map_of category check of
        None \<Rightarrow> Inl TypeError
      | Some item \<Rightarrow> Inr (case score item of None \<Rightarrow> False | Some s \<Rightarrow> s < bound))"

definition generateRecommendations :: "metrics \<Rightarrow> error + string list" where
  "generateRecommendations m =
     (let recommendations = []
      in case audit m of
           None \<Rightarrow> Inr recommendations
         | Some a \<Rightarrow>
            (case score_below (audit_performance a) ''imageOptimization'' 80 of
               Inl e \<Rightarrow> Inl e
             | Inr c1 \<Rightarrow>
            (let recommendations =
                   (if c1 then recommendations
                                 @ [''Optimize images by resizing to appropriate dimensions'']
                    else recommendations)
             in case score_below (audit_performance a) ''cssSize'' 80 of
               Inl e \<Rightarrow> Inl e
             | Inr c2 \<Rightarrow>
            (let recommendations =
                   (if c2 then recommendations @ [''Minify and compress CSS files'']
                    else recommendations)
             in case score_below (audit_accessibility a) ''altTags'' 100 of
               Inl e \<Rightarrow> Inl e
             | Inr c3 \<Rightarrow>
            (let recommendations =
                   (if c3 then recommendations @ [''Add alt text to all images'']
                    else recommendations)
             in case score_below (audit_seo a) ''metaTags'' 100 of
               Inl e \<Rightarrow> Inl e
             | Inr c4 \<Rightarrow>
                 Inr (if c4 then recommendations
                                   @ [''Add missing meta tags (description, viewport)'']
                      else recommendations))))))"

section \<open>Metrics collector\<close>

text \<open>
  The names of the properties that an object literal inherits. For such a name
  \<open>acc[name]\<close> is the inherited function or the prototype object even though \<open>acc\<close> has
  no bucket of its own.
\<close>

definition inherited_property :: "string \<Rightarrow> bool" where
  "inherited_property name =
     (name \<in> set [''constructor'', ''toString'', ''toLocaleString'', ''valueOf'',
                   ''hasOwnProperty'', ''isPrototypeOf'', ''propertyIsEnumerable'',
                   ''__proto__'', ''__defineGetter__'', ''__defineSetter__'',
                   ''__lookupGetter__'', ''__lookupSetter__''])"

text \<open>
  One turn of the grouping \<open>reduce\<close> on a type that is not inherited: a type seen for
  the first time gets an empty bucket; then the bucket of the type counts the resource,
  adds its size and appends it to its items. The count cannot leave the whole numbers
  that a double holds exactly, since an array has fewer than \<open>2^32\<close> elements.
\<close>

definition group_bucket :: "summary obj \<Rightarrow> ResourceEntry \<Rightarrow> summary obj" where
  "group_bucket acc resource =
     (let acc = (case map_of acc (res_type resource) of
                   None \<Rightarrow> AList.update (res_type resource)
                             \<lparr>count = 0, totalSize = Num 0, averageTime = Num 0, items = []\<rparr>
                             acc
                 | Some _ \<Rightarrow> acc);
          acc = AList.map_entry (res_type resource) (\<lambda>s. s\<lparr>count := count s + 1\<rparr>) acc;
          acc = AList.map_entry (res_type resource)
                  (\<lambda>s. s\<lparr>totalSize := js_plus (totalSize s) (Num (of_nat (res_size resource)))\<rparr>)
                  acc;
          acc = AList.map_entry (res_type resource) (\<lambda>s. s\<lparr>items := items s @ [resource]\<rparr>) acc
      in acc)"

text \<open>
  One turn of the \<open>reduce\<close> on any type. For an inherited name the test \<open>!acc[type]\<close> is
  false, no bucket is made, the inherited value has no \<open>items\<close> and \<open>items.push\<close> throws a
  \<open>TypeError\<close>. (The \<open>count\<close> and \<open>totalSize\<close> that the two statements before it write on
  the inherited value are not part of the store.)
\<close>

definition group_step :: "summary obj \<Rightarrow> ResourceEntry \<Rightarrow> error + summary obj" where
  "group_step acc resource =
     (if inherited_property (res_type resource) then Inl TypeError
      else Inr (group_bucket acc resource))"

fun group_all :: "summary obj \<Rightarrow> ResourceEntry list \<Rightarrow> error + summary obj" where
  "group_all acc [] = Inr acc"
| "group_all acc (resource # later) =
     (case group_step acc resource of
        Inl e \<Rightarrow> Inl e
      | Inr acc \<Rightarrow> group_all acc later)"

text \<open>The second pass: the average time of one bucket, in double precision.\<close>

definition average_step :: "summary obj \<Rightarrow> string \<Rightarrow> summary obj" where
  "average_step sm t =
     AList.map_entry t
       (\<lambda>s. s\<lparr>averageTime :=
                 js_quot (foldl (\<lambda>sum item. js_plus sum (Num (res_duration item))) (Num 0)
                            (items s))
                         (Num (of_nat (count s)))\<rparr>) sm"

text \<open>
  The resource-timing entries are \<open>None\<close> when the host has no performance interface;
  the store is then left as it is. The result is the pair of the value returned, or the
  error thrown, and the store: \<open>resources\<close> is written before the grouping starts, the
  summary only when the grouping has not thrown.
\<close>

definition measureResources ::
  "PerformanceResourceTiming list option \<Rightarrow> metrics
     \<Rightarrow> (error + ResourceEntry list option) \<times> metrics" where
  "measureResources entries m =
     (case entries of
        None \<Rightarrow> (Inr (resources m), m)
      | Some rs \<Rightarrow>
          (let mapped = map (\<lambda>resource.
                          \<lparr>res_name = entry_name resource,
                           res_duration = entry_duration resource,
                           res_size = (case transferSize resource of None \<Rightarrow> 0 | Some n \<Rightarrow> n),
                           res_type = initiatorType resource\<rparr>) rs;
               m = m\<lparr>resources := Some mapped\<rparr>
           in case group_all [] mapped of
                Inl e \<Rightarrow> (Inl e, m)
              | Inr grouped \<Rightarrow>
                  (let m = m\<lparr>resourceSummary := Some grouped\<rparr>;
                       m = m\<lparr>resourceSummary :=
                              Some (foldl average_step grouped (Object_keys grouped))\<rparr>
                   in (Inr (resources m), m))))"

text \<open>
  The frame callback of \<open>measureFPS\<close>, run over the time stamps with which the host
  calls it, one per scheduled frame. \<open>startTime\<close> is \<open>None\<close> while it is \<open>null\<close>; the
  test \<open>!startTime\<close> holds for \<open>null\<close> and for zero. The result is \<open>None\<close> when the host
  stops calling before the promise is resolved.
\<close>

fun measureFrame :: "rat \<Rightarrow> nat \<Rightarrow> rat option \<Rightarrow> rat list \<Rightarrow> jsnum option" where
  "measureFrame duration frames startTime [] = None"
| "measureFrame duration frames startTime (timestamp # later) =
     (let startTime = (case startTime of
                         None \<Rightarrow> timestamp
                       | Some s \<Rightarrow> if s = 0 then timestamp else s);
          frames = frames + 1
      in if timestamp - startTime < duration
         then measureFrame duration frames (Some startTime) later
         else Some (js_round (js_div (Num (of_nat frames * 1000)) (Num duration))))"

definition measureFPS :: "rat \<Rightarrow> rat list \<Rightarrow> metrics \<Rightarrow> (jsnum \<times> metrics) option" where
  "measureFPS duration timestamps m =
     (case measureFrame duration 0 None timestamps of
        None \<Rightarrow> None
      | Some v \<Rightarrow> Some (v, m\<lparr>fps := Some v\<rparr>))"

section \<open>Notions of the specification\<close>

text \<open>A score as the data model wants it: a whole number between 0 and 100.\<close>

definition whole_percentage :: "rat \<Rightarrow> bool" where
  "whole_percentage s = (of_int \<lfloor>s\<rfloor> = s \<and> 0 \<le> s \<and> s \<le> 100)"

definition valid_score :: "AuditResult \<Rightarrow> bool" where
  "valid_score r = (case score r of None \<Rightarrow> False | Some s \<Rightarrow> whole_percentage s)"

text \<open>The results of all checks of an audit, category by category.\<close>

definition audit_results :: "audit \<Rightarrow> AuditResult list" where
  "audit_results a =
     Object_values (audit_performance a) @ Object_values (audit_bestPractices a)
     @ Object_values (audit_accessibility a) @ Object_values (audit_seo a)"

text \<open>
  The formula that the aggregator does not use: the mean of the scores of all checks,
  rounded once.
\<close>

definition single_stage_overall :: "audit \<Rightarrow> jsnum" where
  "single_stage_overall a =
     js_round (js_div (Num (sum_list (map score_or_0 (audit_results a))))
                      (Num (of_nat (length (audit_results a)))))"

text \<open>The stylesheet links of the page, and those that the size check counts.\<close>

definition stylesheet_links :: "page \<Rightarrow> element list" where
  "stylesheet_links pg = querySelectorAll (document pg) [TagAttrEq ''link'' ''rel'' ''stylesheet'']"

definition counted_stylesheet :: "element \<Rightarrow> bool" where
  "counted_stylesheet sheet =
     (href sheet \<noteq> [] \<and> \<not> str_includes (href sheet) ''fonts.googleapis.com'')"

text \<open>The collections over which four of the checks take a share or a count.\<close>

definition images :: "page \<Rightarrow> element list" where
  "images pg = querySelectorAll (document pg) [Tag ''img'']"

definition interactive_elements :: "page \<Rightarrow> element list" where
  "interactive_elements pg =
     querySelectorAll (document pg) [Tag ''button'', Tag ''a'', Tag ''input'', HasAttr ''role'']"

definition headings :: "page \<Rightarrow> element list" where
  "headings pg = querySelectorAll (document pg)
                   [Tag ''h1'', Tag ''h2'', Tag ''h3'', Tag ''h4'', Tag ''h5'', Tag ''h6'']"

text \<open>
  The mean of the scores of a category, an absent score counting as zero. It is
  meaningful for a category that has a check.
\<close>

definition contribution :: "AuditResult \<Rightarrow> rat" where
  "contribution r = (case score r of None \<Rightarrow> 0 | Some s \<Rightarrow> s)"

definition mean_score :: "AuditResult obj \<Rightarrow> rat" where
  "mean_score category =
     sum_list (map contribution (Object_values category)) / of_nat (length category)"

text \<open>
  The advice of the recommendation generator as a function of the four results that it
  reads.
\<close>

definition below :: "AuditResult \<Rightarrow> rat \<Rightarrow> bool" where
  "below r bound = (case score r of None \<Rightarrow> False | Some s \<Rightarrow> s < bound)"

definition advice ::
  "AuditResult \<Rightarrow> AuditResult \<Rightarrow> AuditResult \<Rightarrow> AuditResult \<Rightarrow> string list" where
  "advice imageOptimization cssSize altTags metaTags =
     (if below imageOptimization 80
      then [''Optimize images by resizing to appropriate dimensions''] else [])
     @ (if below cssSize 80 then [''Minify and compress CSS files''] else [])
     @ (if below altTags 100 then [''Add alt text to all images''] else [])
     @ (if below metaTags 100 then [''Add missing meta tags (description, viewport)''] else [])"

text \<open>
  The levels of the headings of a page in document order, and the number of places in
  a sequence of levels where a level exceeds the one before it by more than one.
\<close>

definition level_of_tag :: "string \<Rightarrow> nat" where
  "level_of_tag t =
     (if t = ''h1'' then 1 else if t = ''h2'' then 2 else if t = ''h3'' then 3
      else if t = ''h4'' then 4 else if t = ''h5'' then 5 else if t = ''h6'' then 6 else 0)"

definition heading_levels :: "page \<Rightarrow> nat list" where
  "heading_levels pg = map (\<lambda>h. level_of_tag (localName h)) (headings pg)"

definition is_heading :: "element \<Rightarrow> bool" where
  "is_heading el = (localName el \<in> set [''h1'', ''h2'', ''h3'', ''h4'', ''h5'', ''h6''])"

fun level_jumps :: "nat list \<Rightarrow> nat" where
  "level_jumps (x # y # ys) = (if x + 1 < y then 1 else 0) + level_jumps (y # ys)"
| "level_jumps _ = 0"

text \<open>
  The resource entry made from a timing entry, the entries of one type, the sum of a list
  of numbers taken in double precision from left to right, and the summary of one type:
  the number of its entries, the sum of their sizes, the quotient of the sum of their
  durations by their number, and the entries themselves. \<open>raw_bucket\<close> is the summary
  after the first pass, before the average is written.
\<close>

definition entry_of :: "PerformanceResourceTiming \<Rightarrow> ResourceEntry" where
  "entry_of resource =
     \<lparr>res_name = entry_name resource, res_duration = entry_duration resource,
      res_size = (case transferSize resource of None \<Rightarrow> 0 | Some n \<Rightarrow> n),
      res_type = initiatorType resource\<rparr>"

definition of_type :: "string \<Rightarrow> ResourceEntry list \<Rightarrow> ResourceEntry list" where
  "of_type t es = filter (\<lambda>e. res_type e = t) es"

definition double_sum :: "rat list \<Rightarrow> jsnum" where
  "double_sum xs = foldl (\<lambda>sum x. js_plus sum (Num x)) (Num 0) xs"

definition bucket_of :: "string \<Rightarrow> ResourceEntry list \<Rightarrow> summary" where
  "bucket_of t es =
     \<lparr>count = length (of_type t es),
      totalSize = double_sum (map (\<lambda>e. of_nat (res_size e)) (of_type t es)),
      averageTime = js_quot (double_sum (map res_duration (of_type t es)))
                            (Num (of_nat (length (of_type t es)))),
      items = of_type t es\<rparr>"

definition raw_bucket :: "string \<Rightarrow> ResourceEntry list \<Rightarrow> summary" where
  "raw_bucket t es =
     \<lparr>count = length (of_type t es),
      totalSize = double_sum (map (\<lambda>e. of_nat (res_size e)) (of_type t es)),
      averageTime = Num 0,
      items = of_type t es\<rparr>"

definition grouped_inv :: "summary obj \<Rightarrow> ResourceEntry list \<Rightarrow> bool" where
  "grouped_inv acc es =
     (distinct (map fst acc) \<and> set (map fst acc) = set (map res_type es)
      \<and> (\<forall>t. map_of acc t
               = (if t \<in> set (map res_type es) then Some (raw_bucket t es) else None)))"

definition with_average :: "summary \<Rightarrow> summary" where
  "with_average s =
     s\<lparr>averageTime :=
         js_quot (foldl (\<lambda>sum item. js_plus sum (Num (res_duration item))) (Num 0) (items s))
                 (Num (of_nat (count s)))\<rparr>"

text \<open>
  The frame rate as the specification words it: the window starts at the time stamp of
  the first callback, the callbacks are counted up to and including the first whose
  time stamp reaches the end of the window, and the count is scaled to one second.
\<close>

fun frames_until :: "rat \<Rightarrow> nat \<Rightarrow> rat list \<Rightarrow> nat option" where
  "frames_until window_end frames [] = None"
| "frames_until window_end frames (timestamp # later) =
     (if timestamp < window_end then frames_until window_end (frames + 1) later
      else Some (frames + 1))"

definition fps_of_frames :: "rat \<Rightarrow> nat \<Rightarrow> jsnum" where
  "fps_of_frames duration frames = js_round (js_div (Num (of_nat frames * 1000)) (Num duration))"

definition fps_first_callback_window :: "rat \<Rightarrow> rat list \<Rightarrow> jsnum option" where
  "fps_first_callback_window duration timestamps =
     (case timestamps of
        [] \<Rightarrow> None
      | first # _ \<Rightarrow> map_option (fps_of_frames duration)
                       (frames_until (first + duration) 0 timestamps))"

section \<open>Arithmetic of scores\<close>

lemma floor_rat_numeral: "\<lfloor>numeral a / numeral b :: rat\<rfloor> = numeral a div numeral b"
  by (metis floor_divide_of_int_eq of_int_numeral)

lemma floor_rat_one: "\<lfloor>1 / numeral b :: rat\<rfloor> = 1 div numeral b"
  by (metis floor_divide_of_int_eq of_int_1 of_int_numeral)

lemmas floor_rat = floor_rat_numeral floor_rat_one

lemma whole_percentage_of_int: "0 \<le> i \<Longrightarrow> i \<le> 100 \<Longrightarrow> whole_percentage (of_int i)"
  by (simp add: whole_percentage_def)

lemma whole_percentage_Math_round:
  assumes "0 \<le> x" "x \<le> 100"
  shows "whole_percentage (Math_round x)"
proof -
  have "0 \<le> \<lfloor>x + 1 / 2\<rfloor>" using assms by (simp add: zero_le_floor)
  moreover have "\<lfloor>x + 1 / 2\<rfloor> \<le> 100" using assms by (simp add: floor_le_iff)
  ultimately show ?thesis unfolding Math_round_def by (intro whole_percentage_of_int)
qed

text \<open>The share of the elements that pass, and the share of the elements found.\<close>

lemma coverage_score:
  assumes "m \<le> n" "0 < n"
  shows "whole_percentage (Math_round ((1 - of_nat m / of_nat n) * 100))"
proof -
  define q :: rat where "q = of_nat m / of_nat n"
  have "q \<le> 1" "0 \<le> q" using assms by (simp_all add: q_def divide_le_eq)
  then have "0 \<le> (1 - q) * 100" "(1 - q) * 100 \<le> 100" by auto
  then show ?thesis unfolding q_def by (rule whole_percentage_Math_round)
qed

lemma ratio_score:
  assumes "m \<le> n" "0 < n"
  shows "whole_percentage (Math_round (of_nat m / of_nat n * 100))"
proof -
  define q :: rat where "q = of_nat m / of_nat n"
  have "q \<le> 1" "0 \<le> q" using assms by (simp_all add: q_def divide_le_eq)
  then have "0 \<le> q * 100" "q * 100 \<le> 100" by auto
  then show ?thesis unfolding q_def by (rule whole_percentage_Math_round)
qed

lemma penalty_score: "whole_percentage (max 0 (100 - of_nat k * 20))"
proof -
  have "max 0 (100 - of_nat k * 20) = (of_int (max 0 (100 - int k * 20)) :: rat)"
    by (simp add: max_def)
  also have "whole_percentage \<dots>" by (rule whole_percentage_of_int) auto
  finally show ?thesis .
qed

lemma budget_score:
  assumes "0 \<le> p"
  shows "whole_percentage (max 0 (100 - of_int p))"
proof -
  have "max 0 (100 - of_int p) = (of_int (max 0 (100 - p)) :: rat)"
    by (simp add: max_def)
  also have "whole_percentage \<dots>" using assms by (intro whole_percentage_of_int) auto
  finally show ?thesis .
qed

lemma css_penalty: "((of_nat (5000 * n) :: rat) - 10000) / 1000 = of_int (5 * int n - 10)"
  by simp

lemma js_penalty: "((of_nat (n * 10000) :: rat) - 30000) / 1000 = of_int (10 * int n - 30)"
  by simp

section \<open>The simulated stylesheet size\<close>

lemma css_total_foldl:
  "foldl (\<lambda>total sheet.
            if href sheet \<noteq> [] \<and> \<not> str_includes (href sheet) ''fonts.googleapis.com''
            then total + 5000 else total) acc sheets
   = acc + 5000 * length (filter counted_stylesheet sheets)"
  by (induction sheets arbitrary: acc) (simp_all add: counted_stylesheet_def)

lemma checkCSSSize_score:
  "score (checkCSSSize pg) =
     Some (let n = length (filter counted_stylesheet (stylesheet_links pg))
           in if 5000 * n < 10000 then 100
              else max 0 (100 - (of_nat (5000 * n) - 10000) / 1000))"
  by (simp add: checkCSSSize_def Let_def css_total_foldl stylesheet_links_def)

section \<open>Every check gives a whole percentage\<close>

lemma valid_checkImageOptimization: "valid_score (checkImageOptimization pg)"
  using penalty_score
  by (simp add: checkImageOptimization_def valid_score_def Let_def whole_percentage_def)

lemma valid_checkCSSSize: "valid_score (checkCSSSize pg)"
proof -
  define n where "n = length (filter counted_stylesheet (stylesheet_links pg))"
  have sc: "score (checkCSSSize pg) =
      Some (if 5000 * n < 10000 then 100 else max 0 (100 - (of_nat (5000 * n) - 10000) / 1000))"
    by (simp add: checkCSSSize_score n_def Let_def)
  show ?thesis
  proof (cases "5000 * n < 10000")
    case True
    then show ?thesis using sc by (simp add: valid_score_def whole_percentage_def)
  next
    case False
    then have "0 \<le> 5 * int n - 10" by simp
    then have "whole_percentage (max 0 (100 - of_int (5 * int n - 10)))" by (rule budget_score)
    then show ?thesis using False sc by (simp only: valid_score_def css_penalty if_False option.case)
  qed
qed

lemma valid_checkJSSize: "valid_score (checkJSSize pg)"
proof -
  define n where "n = length (querySelectorAll (document pg) [TagHasAttr ''script'' ''src''])"
  have sc: "score (checkJSSize pg) =
      Some (if n * 10000 < 30000 then 100 else max 0 (100 - (of_nat (n * 10000) - 30000) / 1000))"
    by (simp add: checkJSSize_def Let_def n_def)
  show ?thesis
  proof (cases "n * 10000 < 30000")
    case True
    then show ?thesis using sc by (simp add: valid_score_def whole_percentage_def)
  next
    case False
    then have "0 \<le> 10 * int n - 30" by simp
    then have "whole_percentage (max 0 (100 - of_int (10 * int n - 30)))" by (rule budget_score)
    then show ?thesis using False sc by (simp only: valid_score_def js_penalty if_False option.case)
  qed
qed

lemma valid_checkFontLoading: "valid_score (checkFontLoading pg)"
  by (simp add: checkFontLoading_def valid_score_def whole_percentage_def Let_def)

lemma valid_checkHTTPS: "valid_score (checkHTTPS pg)"
  by (simp add: checkHTTPS_def valid_score_def whole_percentage_def)

lemma valid_checkConsoleErrors: "valid_score (checkConsoleErrors pg)"
  by (simp add: checkConsoleErrors_def valid_score_def whole_percentage_def)

lemma valid_checkDeprecatedAPI: "valid_score (checkDeprecatedAPI pg)"
  by (simp add: checkDeprecatedAPI_def valid_score_def whole_percentage_def Let_def)

lemma valid_checkAltTags: "valid_score (checkAltTags pg)"
proof -
  let ?images = "querySelectorAll (document pg) [Tag ''img'']"
  let ?missing = "filter (\<lambda>img. alt img = []) ?images"
  show ?thesis
  proof (cases "length ?images = 0")
    case True
    then show ?thesis
      by (simp add: checkAltTags_def valid_score_def Let_def whole_percentage_def)
  next
    case False
    have "length ?missing \<le> length ?images" by (rule length_filter_le)
    with False have "whole_percentage
        (Math_round ((1 - of_nat (length ?missing) / of_nat (length ?images)) * 100))"
      by (intro coverage_score) auto
    with False show ?thesis
      by (simp add: checkAltTags_def valid_score_def Let_def)
  qed
qed

lemma valid_checkAriaLabels: "valid_score (checkAriaLabels pg)"
proof -
  let ?els = "querySelectorAll (document pg)
                [Tag ''button'', Tag ''a'', Tag ''input'', HasAttr ''role'']"
  let ?un = "filter (\<lambda>el. no_text (getAttribute el ''aria-label'')
                            \<and> trim (textContent el) = []
                            \<and> no_text (getAttribute el ''title'')) ?els"
  show ?thesis
  proof (cases "length ?els = 0")
    case True
    then show ?thesis
      by (simp add: checkAriaLabels_def valid_score_def Let_def whole_percentage_def)
  next
    case False
    have "length ?un \<le> length ?els" by (rule length_filter_le)
    with False have "whole_percentage
        (Math_round ((1 - of_nat (length ?un) / of_nat (length ?els)) * 100))"
      by (intro coverage_score) auto
    with False show ?thesis
      by (simp add: checkAriaLabels_def valid_score_def Let_def)
  qed
qed

lemma valid_checkColorContrast: "valid_score (checkColorContrast pg)"
  by (simp add: checkColorContrast_def valid_score_def whole_percentage_def)

lemma valid_checkMetaTags: "valid_score (checkMetaTags pg)"
proof -
  let ?present = "filter (\<lambda>meta. querySelector (document pg)
                                    [TagAttrEq ''meta'' ''name'' meta] \<noteq> None)
                    [''description'', ''viewport'']"
  have "length ?present \<le> length [''description'', ''viewport'']" by (rule length_filter_le)
  then have "whole_percentage (Math_round (of_nat (length ?present)
               / of_nat (length [''description'', ''viewport'']) * 100))"
    by (intro ratio_score) auto
  then show ?thesis
    by (simp add: checkMetaTags_def valid_score_def Let_def)
qed

lemma valid_checkHeadingStructure: "valid_score (checkHeadingStructure pg)"
  using penalty_score
  by (simp add: checkHeadingStructure_def valid_score_def Let_def whole_percentage_def)

lemma valid_checkSemanticHTML: "valid_score (checkSemanticHTML pg)"
proof -
  let ?sem = "[''header'', ''nav'', ''main'', ''section'', ''article'', ''aside'', ''footer'']"
  let ?present = "filter (\<lambda>t. querySelector (document pg) [Tag t] \<noteq> None) ?sem"
  have "length ?present \<le> length ?sem" by (rule length_filter_le)
  then have "whole_percentage (Math_round (of_nat (length ?present) / of_nat (length ?sem) * 100))"
    by (intro ratio_score) auto
  then show ?thesis
    by (simp add: checkSemanticHTML_def valid_score_def Let_def)
qed

text \<open>The audit that \<open>runAudit\<close> stores holds the results of the thirteen checks.\<close>

lemma audit_results_runAudit:
  "audit_results (fst (runAudit pg m)) =
     [checkImageOptimization pg, checkCSSSize pg, checkJSSize pg, checkFontLoading pg,
      checkHTTPS pg, checkConsoleErrors pg, checkDeprecatedAPI pg,
      checkAltTags pg, checkAriaLabels pg, checkColorContrast pg,
      checkMetaTags pg, checkHeadingStructure pg, checkSemanticHTML pg]"
  by (simp add: runAudit_def audit_results_def Object_values_def Let_def)

lemma audit_runAudit: "audit (snd (runAudit pg m)) = Some (fst (runAudit pg m))"
  by (simp add: runAudit_def Let_def)

lemmas check_defs =
  checkImageOptimization_def checkCSSSize_def checkJSSize_def checkFontLoading_def
  checkHTTPS_def checkConsoleErrors_def checkDeprecatedAPI_def checkAltTags_def
  checkAriaLabels_def checkColorContrast_def checkMetaTags_def checkHeadingStructure_def
  checkSemanticHTML_def querySelectorAll_def querySelector_def

text \<open>
  C3. For every document, each check that \<open>runAudit\<close> runs (the source has thirteen:
  four for performance and three for each other category) returns a score that is a
  whole number between 0 and 100; the byte-budget penalties of the CSS and JS checks
  are among them.
\<close>

theorem runAudit_scores_whole_percentages:
  "list_all valid_score (audit_results (fst (runAudit pg m)))
   \<and> valid_score (checkCSSSize pg) \<and> valid_score (checkJSSize pg)"
  unfolding audit_results_runAudit
  by (simp add: valid_checkImageOptimization valid_checkCSSSize valid_checkJSSize
      valid_checkFontLoading valid_checkHTTPS valid_checkConsoleErrors valid_checkDeprecatedAPI
      valid_checkAltTags valid_checkAriaLabels valid_checkColorContrast valid_checkMetaTags
      valid_checkHeadingStructure valid_checkSemanticHTML)

section \<open>Placeholder scores\<close>

text \<open>
  C4. Before any audit has run (the metrics store has no \<open>audit\<close> entry) the scores are
  exactly the placeholder: performance 85, accessibility 90, best practices 88, SEO 92,
  overall 89.
\<close>

theorem calculateScores_placeholder:
  "calculateScores (m\<lparr>audit := None\<rparr>) =
     \<lparr>performance = Num 85, accessibility = Num 90, bestPractices = Num 88,
      seo = Num 92, overall = Num 89\<rparr>"
  by (simp add: calculateScores_def)

section \<open>The stylesheet budget\<close>

lemma css_score_cases:
  "(if 5000 * n < 10000 then 100 else max 0 (100 - (of_nat (5000 * n) - 10000) / 1000))
   = (if n \<le> 2 then 100 else max 0 (100 - (5000 * of_nat n - 10000) / 1000) :: rat)"
proof (cases "n = 2")
  case True
  then show ?thesis by simp
next
  case False
  then show ?thesis by auto
qed

text \<open>
  C10. In the CSS-size check a stylesheet link without \<open>href\<close>, or whose \<open>href\<close>
  contains \<open>fonts.googleapis.com\<close>, adds nothing to the simulated total and every other
  stylesheet link adds 5000. With \<open>n\<close> counted links the score is 100 for \<open>n \<le> 2\<close> and
  \<open>max(0, 100 - (5000 n - 10000) / 1000)\<close> otherwise, and a page all of whose stylesheet
  links point at Google Fonts scores 100.
\<close>

theorem checkCSSSize_by_counted_links:
  "detail (checkCSSSize pg) = Size (5000 * length (filter counted_stylesheet (stylesheet_links pg)))
   \<and> score (checkCSSSize pg) =
       Some (let n = length (filter counted_stylesheet (stylesheet_links pg))
             in if n \<le> 2 then 100 else max 0 (100 - (5000 * of_nat n - 10000) / 1000))
   \<and> ((\<forall>sheet \<in> set (stylesheet_links pg). str_includes (href sheet) ''fonts.googleapis.com'')
        \<longrightarrow> score (checkCSSSize pg) = Some 100)"
proof (intro conjI impI)
  show "detail (checkCSSSize pg)
          = Size (5000 * length (filter counted_stylesheet (stylesheet_links pg)))"
    by (simp add: checkCSSSize_def Let_def css_total_foldl stylesheet_links_def)
  show sc: "score (checkCSSSize pg) =
       Some (let n = length (filter counted_stylesheet (stylesheet_links pg))
             in if n \<le> 2 then 100 else max 0 (100 - (5000 * of_nat n - 10000) / 1000))"
    unfolding checkCSSSize_score Let_def css_score_cases ..
  assume "\<forall>sheet \<in> set (stylesheet_links pg). str_includes (href sheet) ''fonts.googleapis.com''"
  then have "filter counted_stylesheet (stylesheet_links pg) = []"
    by (simp add: filter_empty_conv counted_stylesheet_def)
  then show "score (checkCSSSize pg) = Some 100"
    by (simp add: sc)
qed

theorem checkCSSSize_google_fonts_witness:
  "score (checkCSSSize
        \<lparr>document = [\<lparr>localName = ''link'', attributes = [(''rel'', ''stylesheet'')],
                       textContent = [],
                       href = ''https://fonts.googleapis.com/css2?family=Inter'',
                       src = [], naturalWidth = 0, offsetWidth = 0\<rparr>],
         protocol = ''https:''\<rparr>) = Some 100"
proof -
  let ?pg = "\<lparr>document = [\<lparr>localName = ''link'', attributes = [(''rel'', ''stylesheet'')],
                       textContent = [],
                       href = ''https://fonts.googleapis.com/css2?family=Inter'',
                       src = [], naturalWidth = 0, offsetWidth = 0\<rparr>],
         protocol = ''https:''\<rparr>"
  have "\<forall>sheet \<in> set (stylesheet_links ?pg). str_includes (href sheet) ''fonts.googleapis.com''"
    by (simp add: stylesheet_links_def querySelectorAll_def getAttribute_def str_includes_def
        sublist_code)
  with checkCSSSize_by_counted_links [of ?pg] show ?thesis by blast
qed

section \<open>Empty collections\<close>

text \<open>
  C6. The four checks that take a share or a count over a collection of elements (too
  large images, alternative texts, labels of interactive elements, heading structure)
  give the score 100, a finite number, when the collection is empty. The check of
  alternative texts gives 75 on four images of which one has no alternative text.
\<close>

theorem empty_collections_score_100:
  "(images pg = [] \<longrightarrow> score (checkImageOptimization pg) = Some 100
                        \<and> score (checkAltTags pg) = Some 100)
   \<and> (interactive_elements pg = [] \<longrightarrow> score (checkAriaLabels pg) = Some 100)
   \<and> (headings pg = [] \<longrightarrow> score (checkHeadingStructure pg) = Some 100)
   \<and> (length (images pg) = 4 \<and> length (filter (\<lambda>img. alt img = []) (images pg)) = 1
        \<longrightarrow> score (checkAltTags pg) = Some 75)"
  by (simp add: images_def interactive_elements_def headings_def checkImageOptimization_def
      checkAltTags_def checkAriaLabels_def checkHeadingStructure_def Let_def Math_round_def
      floor_rat)

theorem empty_collections_witness:
  "score (checkImageOptimization
            \<lparr>document = [\<lparr>localName = ''p'', attributes = [], textContent = ''Hello'',
                           href = [], src = [], naturalWidth = 0, offsetWidth = 0\<rparr>],
             protocol = ''https:''\<rparr>) = Some 100
   \<and> score (checkAltTags
            \<lparr>document = [\<lparr>localName = ''p'', attributes = [], textContent = ''Hello'',
                           href = [], src = [], naturalWidth = 0, offsetWidth = 0\<rparr>],
             protocol = ''https:''\<rparr>) = Some 100
   \<and> score (checkAriaLabels
            \<lparr>document = [\<lparr>localName = ''p'', attributes = [], textContent = ''Hello'',
                           href = [], src = [], naturalWidth = 0, offsetWidth = 0\<rparr>],
             protocol = ''https:''\<rparr>) = Some 100
   \<and> score (checkHeadingStructure
            \<lparr>document = [\<lparr>localName = ''p'', attributes = [], textContent = ''Hello'',
                           href = [], src = [], naturalWidth = 0, offsetWidth = 0\<rparr>],
             protocol = ''https:''\<rparr>) = Some 100
   \<and> score (checkAltTags
         \<lparr>document =
            [\<lparr>localName = ''img'', attributes = [(''alt'', ''logo'')], textContent = [],
              href = [], src = ''a.png'', naturalWidth = 10, offsetWidth = 10\<rparr>,
             \<lparr>localName = ''img'', attributes = [], textContent = [],
              href = [], src = ''b.png'', naturalWidth = 10, offsetWidth = 10\<rparr>,
             \<lparr>localName = ''img'', attributes = [(''alt'', ''map'')], textContent = [],
              href = [], src = ''c.png'', naturalWidth = 10, offsetWidth = 10\<rparr>,
             \<lparr>localName = ''img'', attributes = [(''alt'', ''team'')], textContent = [],
              href = [], src = ''d.png'', naturalWidth = 10, offsetWidth = 10\<rparr>],
          protocol = ''https:''\<rparr>) = Some 75"
proof -
  let ?e = "\<lparr>document = [\<lparr>localName = ''p'', attributes = [], textContent = ''Hello'',
                           href = [], src = [], naturalWidth = 0, offsetWidth = 0\<rparr>],
             protocol = ''https:''\<rparr>"
  let ?p = "\<lparr>document =
            [\<lparr>localName = ''img'', attributes = [(''alt'', ''logo'')], textContent = [],
              href = [], src = ''a.png'', naturalWidth = 10, offsetWidth = 10\<rparr>,
             \<lparr>localName = ''img'', attributes = [], textContent = [],
              href = [], src = ''b.png'', naturalWidth = 10, offsetWidth = 10\<rparr>,
             \<lparr>localName = ''img'', attributes = [(''alt'', ''map'')], textContent = [],
              href = [], src = ''c.png'', naturalWidth = 10, offsetWidth = 10\<rparr>,
             \<lparr>localName = ''img'', attributes = [(''alt'', ''team'')], textContent = [],
              href = [], src = ''d.png'', naturalWidth = 10, offsetWidth = 10\<rparr>],
          protocol = ''https:''\<rparr>"
  have e: "images ?e = []" "interactive_elements ?e = []" "headings ?e = []"
    by (simp_all add: images_def interactive_elements_def headings_def querySelectorAll_def
        getAttribute_def)
  have p: "length (images ?p) = 4 \<and> length (filter (\<lambda>img. alt img = []) (images ?p)) = 1"
    by (simp add: images_def querySelectorAll_def alt_def getAttribute_def)
  from e p empty_collections_score_100 [of ?e] empty_collections_score_100 [of ?p]
  show ?thesis by blast
qed


section \<open>Category scores\<close>

lemma score_or_0_contribution: "score_or_0 = contribution"
  by (rule ext) (simp add: score_or_0_def contribution_def split: option.split)

lemma foldl_plus_sum_list: "foldl (\<lambda>sum s. sum + s) acc xs = acc + sum_list (xs :: rat list)"
  by (induction xs arbitrary: acc) simp_all

lemma calculateCategoryScore_nonempty:
  assumes "category \<noteq> []"
  shows "calculateCategoryScore category = Num (Math_round (mean_score category))"
  using assms
  by (simp add: calculateCategoryScore_def Let_def Object_values_def mean_score_def
      score_or_0_contribution foldl_plus_sum_list)

lemma Math_round_half_up:
  "\<exists>r::int. Math_round x = of_int r \<and> x - 1 / 2 < of_int r \<and> of_int r \<le> x + 1 / 2"
proof (intro exI conjI)
  show "Math_round x = of_int \<lfloor>x + 1 / 2\<rfloor>" by (simp add: Math_round_def)
  show "x - 1 / 2 < of_int \<lfloor>x + 1 / 2\<rfloor>" by linarith
  show "of_int \<lfloor>x + 1 / 2\<rfloor> \<le> x + 1 / 2" by (rule of_int_floor_le)
qed

text \<open>
  C2. The score of a category is the mean of the scores of its checks, an absent score
  counting as zero, rounded to the nearest whole number with a tie rounded up: it is the
  whole number \<open>r\<close> with \<open>mean - 1/2 < r \<le> mean + 1/2\<close>. Checks that score 100, 80 and 60
  give 80. The mean needs a check to divide by: every category of the audit has three or
  four, and on an object without any the quotient is \<open>0/0\<close> and the result is \<open>NaN\<close>.
\<close>

theorem calculateCategoryScore_rounded_mean:
  "(category \<noteq> [] \<longrightarrow>
      (\<exists>r::int. calculateCategoryScore category = Num (of_int r)
                \<and> mean_score category - 1 / 2 < of_int r
                \<and> of_int r \<le> mean_score category + 1 / 2))
   \<and> calculateCategoryScore
         [(k1, \<lparr>score = Some 100, detail = d1\<rparr>), (k2, \<lparr>score = Some 80, detail = d2\<rparr>),
          (k3, \<lparr>score = Some 60, detail = d3\<rparr>)] = Num 80
   \<and> calculateCategoryScore
         [(k1, \<lparr>score = Some 100, detail = d1\<rparr>), (k2, \<lparr>score = None, detail = d2\<rparr>)] = Num 50
   \<and> calculateCategoryScore [] = NaN"
proof (intro conjI impI)
  assume "category \<noteq> []"
  then have "calculateCategoryScore category = Num (Math_round (mean_score category))"
    by (rule calculateCategoryScore_nonempty)
  with Math_round_half_up [of "mean_score category"]
  show "\<exists>r::int. calculateCategoryScore category = Num (of_int r)
                \<and> mean_score category - 1 / 2 < of_int r
                \<and> of_int r \<le> mean_score category + 1 / 2"
    by auto
qed (simp_all add: calculateCategoryScore_def Let_def Object_values_def score_or_0_def
      Math_round_def floor_rat)

theorem calculateCategoryScore_witness:
  "\<exists>r::int. calculateCategoryScore
               [(''altTags'', \<lparr>score = Some 75, detail = MissingCount 1\<rparr>),
                (''ariaLabels'', \<lparr>score = Some 100, detail = Unlabeled 0\<rparr>),
                (''colorContrast'', \<lparr>score = Some 85, detail = Warning None\<rparr>)] = Num (of_int r)
             \<and> mean_score
                  [(''altTags'', \<lparr>score = Some 75, detail = MissingCount 1\<rparr>),
                   (''ariaLabels'', \<lparr>score = Some 100, detail = Unlabeled 0\<rparr>),
                   (''colorContrast'', \<lparr>score = Some 85, detail = Warning None\<rparr>)] - 1 / 2
                 < of_int r
             \<and> of_int r
                 \<le> mean_score
                      [(''altTags'', \<lparr>score = Some 75, detail = MissingCount 1\<rparr>),
                       (''ariaLabels'', \<lparr>score = Some 100, detail = Unlabeled 0\<rparr>),
                       (''colorContrast'', \<lparr>score = Some 85, detail = Warning None\<rparr>)] + 1 / 2"
  using calculateCategoryScore_rounded_mean
          [of "[(''altTags'', \<lparr>score = Some 75, detail = MissingCount 1\<rparr>),
                (''ariaLabels'', \<lparr>score = Some 100, detail = Unlabeled 0\<rparr>),
                (''colorContrast'', \<lparr>score = Some 85, detail = Warning None\<rparr>)]"]
  by simp

section \<open>Two-stage rounding\<close>

lemma snd_runAudit: "snd (runAudit pg m) = m\<lparr>audit := Some (fst (runAudit pg m))\<rparr>"
  by (simp add: runAudit_def Let_def)

lemma runAudit_categories_nonempty:
  "audit_performance (fst (runAudit pg m)) \<noteq> []"
  "audit_accessibility (fst (runAudit pg m)) \<noteq> []"
  "audit_bestPractices (fst (runAudit pg m)) \<noteq> []"
  "audit_seo (fst (runAudit pg m)) \<noteq> []"
  by (simp_all add: runAudit_def Let_def)

lemma calculateScores_audit:
  "calculateScores (m\<lparr>audit := Some a\<rparr>) =
     \<lparr>performance = calculateCategoryScore (audit_performance a),
      accessibility = calculateCategoryScore (audit_accessibility a),
      bestPractices = calculateCategoryScore (audit_bestPractices a),
      seo = calculateCategoryScore (audit_seo a),
      overall = js_round (js_div (js_add (js_add (js_add
                    (calculateCategoryScore (audit_performance a))
                    (calculateCategoryScore (audit_accessibility a)))
                    (calculateCategoryScore (audit_bestPractices a)))
                    (calculateCategoryScore (audit_seo a))) (Num 4))\<rparr>"
  by (simp add: calculateScores_def Let_def)

text \<open>
  C1. When an audit has run, each category score is the rounded mean of its checks and
  the overall score is the rounded mean of these four rounded scores. This is not the
  rounded mean of the scores of all checks: for the empty document served over plain
  HTTP the aggregator gives 74 and the single-stage formula gives 76.
\<close>

theorem calculateScores_two_stage:
  "calculateScores (m\<lparr>audit := Some a\<rparr>) =
     \<lparr>performance = calculateCategoryScore (audit_performance a),
      accessibility = calculateCategoryScore (audit_accessibility a),
      bestPractices = calculateCategoryScore (audit_bestPractices a),
      seo = calculateCategoryScore (audit_seo a),
      overall = js_round (js_div (js_add (js_add (js_add
                    (calculateCategoryScore (audit_performance a))
                    (calculateCategoryScore (audit_accessibility a)))
                    (calculateCategoryScore (audit_bestPractices a)))
                    (calculateCategoryScore (audit_seo a))) (Num 4))\<rparr>
   \<and> overall (calculateScores (snd (runAudit pg m)))
       = Num (Math_round
           ((Math_round (mean_score (audit_performance (fst (runAudit pg m))))
             + Math_round (mean_score (audit_accessibility (fst (runAudit pg m))))
             + Math_round (mean_score (audit_bestPractices (fst (runAudit pg m))))
             + Math_round (mean_score (audit_seo (fst (runAudit pg m))))) / 4))
   \<and> overall (calculateScores (snd (runAudit \<lparr>document = [], protocol = ''http:''\<rparr> m)))
       = Num 74
   \<and> single_stage_overall (fst (runAudit \<lparr>document = [], protocol = ''http:''\<rparr> m))
       = Num 76"
proof (intro conjI)
  show "overall (calculateScores (snd (runAudit pg m)))
       = Num (Math_round
           ((Math_round (mean_score (audit_performance (fst (runAudit pg m))))
             + Math_round (mean_score (audit_accessibility (fst (runAudit pg m))))
             + Math_round (mean_score (audit_bestPractices (fst (runAudit pg m))))
             + Math_round (mean_score (audit_seo (fst (runAudit pg m))))) / 4))"
    unfolding snd_runAudit calculateScores_audit
    by (simp add: calculateCategoryScore_nonempty runAudit_categories_nonempty)
  show "overall (calculateScores (snd (runAudit \<lparr>document = [], protocol = ''http:''\<rparr> m)))
          = Num 74"
    by (simp add: runAudit_def Let_def calculateScores_def calculateCategoryScore_def
        Object_values_def score_or_0_def check_defs Math_round_def floor_rat)
  show "single_stage_overall (fst (runAudit \<lparr>document = [], protocol = ''http:''\<rparr> m))
          = Num 76"
    by (simp add: single_stage_overall_def audit_results_runAudit score_or_0_def
        check_defs Math_round_def floor_rat)
qed (rule calculateScores_audit)

section \<open>Recommendations\<close>

lemma generateRecommendations_present:
  assumes "map_of (audit_performance a) ''imageOptimization'' = Some r1"
    and "map_of (audit_performance a) ''cssSize'' = Some r2"
    and "map_of (audit_accessibility a) ''altTags'' = Some r3"
    and "map_of (audit_seo a) ''metaTags'' = Some r4"
  shows "generateRecommendations (m\<lparr>audit := Some a\<rparr>) = Inr (advice r1 r2 r3 r4)"
  using assms
  by (simp add: generateRecommendations_def score_below_def advice_def below_def Let_def)

lemma runAudit_lookup:
  "map_of (audit_performance (fst (runAudit pg m))) ''imageOptimization''
     = Some (checkImageOptimization pg)"
  "map_of (audit_performance (fst (runAudit pg m))) ''cssSize'' = Some (checkCSSSize pg)"
  "map_of (audit_accessibility (fst (runAudit pg m))) ''altTags'' = Some (checkAltTags pg)"
  "map_of (audit_seo (fst (runAudit pg m))) ''metaTags'' = Some (checkMetaTags pg)"
  by (simp_all add: runAudit_def Let_def)

text \<open>
  C7. Without an audit the recommendations are empty. With an audit that holds the four
  checks read, they are exactly the advisory strings whose condition holds (image
  optimization below 80, CSS size below 80, alternative texts below 100, meta tags below
  100), one string each, in this order, so at most four; this is so for the audit that
  \<open>runAudit\<close> stores, for every page.
\<close>

theorem generateRecommendations_exact:
  "generateRecommendations (m\<lparr>audit := None\<rparr>) = Inr []
   \<and> (map_of (audit_performance a) ''imageOptimization'' = Some r1
       \<and> map_of (audit_performance a) ''cssSize'' = Some r2
       \<and> map_of (audit_accessibility a) ''altTags'' = Some r3
       \<and> map_of (audit_seo a) ''metaTags'' = Some r4
       \<longrightarrow> generateRecommendations (m\<lparr>audit := Some a\<rparr>) = Inr (advice r1 r2 r3 r4))
   \<and> generateRecommendations (snd (runAudit pg m))
       = Inr (advice (checkImageOptimization pg) (checkCSSSize pg) (checkAltTags pg)
                     (checkMetaTags pg))
   \<and> length (advice r1 r2 r3 r4) \<le> 4"
proof (intro conjI impI)
  show "generateRecommendations (m\<lparr>audit := None\<rparr>) = Inr []"
    by (simp add: generateRecommendations_def)
  show "generateRecommendations (snd (runAudit pg m))
       = Inr (advice (checkImageOptimization pg) (checkCSSSize pg) (checkAltTags pg)
                     (checkMetaTags pg))"
    unfolding snd_runAudit by (intro generateRecommendations_present runAudit_lookup)
  show "length (advice r1 r2 r3 r4) \<le> 4" by (simp add: advice_def)
qed (simp add: generateRecommendations_present)

theorem generateRecommendations_witness:
  "generateRecommendations
     \<lparr>resources = None, resourceSummary = None, fps = None,
      audit = Some
        \<lparr>audit_performance =
           [(''imageOptimization'', \<lparr>score = Some 60, detail = Issues []\<rparr>),
            (''cssSize'', \<lparr>score = Some 100, detail = Size 5000\<rparr>)],
         audit_bestPractices = [],
         audit_accessibility = [(''altTags'', \<lparr>score = Some 75, detail = MissingCount 1\<rparr>)],
         audit_seo = [(''metaTags'', \<lparr>score = Some 100, detail = MissingNames []\<rparr>)]\<rparr>\<rparr>
   = Inr [''Optimize images by resizing to appropriate dimensions'',
          ''Add alt text to all images'']"
  using generateRecommendations_exact
    [of "\<lparr>resources = None, resourceSummary = None, fps = None, audit = None\<rparr>"
        "\<lparr>audit_performance =
           [(''imageOptimization'', \<lparr>score = Some 60, detail = Issues []\<rparr>),
            (''cssSize'', \<lparr>score = Some 100, detail = Size 5000\<rparr>)],
         audit_bestPractices = [],
         audit_accessibility = [(''altTags'', \<lparr>score = Some 75, detail = MissingCount 1\<rparr>)],
         audit_seo = [(''metaTags'', \<lparr>score = Some 100, detail = MissingNames []\<rparr>)]\<rparr>"
        "\<lparr>score = Some 60, detail = Issues []\<rparr>"
        "\<lparr>score = Some 100, detail = Size 5000\<rparr>"
        "\<lparr>score = Some 75, detail = MissingCount 1\<rparr>"
        "\<lparr>score = Some 100, detail = MissingNames []\<rparr>"]
  by (simp add: advice_def below_def)


section \<open>Heading structure\<close>

lemma heading_level_of_heading:
  assumes "is_heading h"
  shows "heading_level h = Some (level_of_tag (localName h))"
proof -
  from assms consider "localName h = ''h1''" | "localName h = ''h2''" | "localName h = ''h3''"
    | "localName h = ''h4''" | "localName h = ''h5''" | "localName h = ''h6''"
    by (auto simp: is_heading_def)
  then show ?thesis
    by cases
      (simp_all add: heading_level_def tagName_def toUpperCase_char_def digit_value_def
        level_of_tag_def Let_def)
qed

lemma headings_are_headings: "h \<in> set (headings pg) \<Longrightarrow> is_heading h"
  by (auto simp: headings_def querySelectorAll_def is_heading_def)

text \<open>The loop counts the jumps of the levels, the level before the first heading being \<open>l\<close>.\<close>

lemma heading_loop:
  assumes "\<forall>h \<in> set hs. is_heading h"
  shows "snd (foldl heading_step (Some l, e) hs)
           = e + level_jumps (l # map (\<lambda>h. level_of_tag (localName h)) hs)"
  using assms
proof (induction hs arbitrary: l e)
  case Nil
  then show ?case by simp
next
  case (Cons h hs)
  then have lv: "heading_level h = Some (level_of_tag (localName h))"
    by (simp add: heading_level_of_heading)
  have step: "heading_step (Some l, e) h
      = (Some (level_of_tag (localName h)),
         if l + 1 < level_of_tag (localName h) then e + 1 else e)"
    by (simp add: heading_step_def lv)
  from Cons.prems have "\<forall>h \<in> set hs. is_heading h" by simp
  then show ?case
    by (simp add: step Cons.IH)
qed

lemma checkHeadingStructure_errors:
  "snd (foldl heading_step (Some 0, 0) (headings pg)) = level_jumps (0 # heading_levels pg)"
  using heading_loop [of "headings pg" 0 0] headings_are_headings [of _ pg]
  by (simp add: heading_levels_def)

lemma checkHeadingStructure_score:
  "score (checkHeadingStructure pg)
     = Some (max 0 (100 - of_nat (level_jumps (0 # heading_levels pg)) * 20))"
proof (cases "headings pg = []")
  case True
  then show ?thesis
    by (simp add: checkHeadingStructure_def Let_def heading_levels_def headings_def)
next
  case False
  then show ?thesis
    using checkHeadingStructure_errors [of pg]
    by (simp add: checkHeadingStructure_def Let_def headings_def)
qed

text \<open>
  C5, as the specification states it, fails on a page whose first heading is not an
  \<open>h1\<close>: the loop starts from the level 0, so a page with the single heading \<open>h2\<close> has one
  structure error and the score 80, while no heading of it exceeds a heading before it
  and the formula of the claim gives 100.
\<close>

theorem checkHeadingStructure_first_heading_counterexample:
  "score (checkHeadingStructure
     \<lparr>document = [\<lparr>localName = ''h2'', attributes = [], textContent = ''News'', href = [],
                    src = [], naturalWidth = 0, offsetWidth = 0\<rparr>],
      protocol = ''https:''\<rparr>) = Some 80
   \<and> max 0 (100 - 20 * of_nat (level_jumps (heading_levels
     \<lparr>document = [\<lparr>localName = ''h2'', attributes = [], textContent = ''News'', href = [],
                    src = [], naturalWidth = 0, offsetWidth = 0\<rparr>],
      protocol = ''https:''\<rparr>))) = (100 :: rat)"
  by (simp add: checkHeadingStructure_def Let_def querySelectorAll_def heading_step_def
      heading_level_def tagName_def toUpperCase_char_def digit_value_def heading_levels_def
      headings_def level_of_tag_def)

text \<open>
  C5, amended. For every page the heading-structure check returns \<open>max(0, 100 - 20 v)\<close>
  where \<open>v\<close> counts the headings whose level exceeds by more than one the level of the
  heading before them, the first heading being compared with the level 0 (a first
  heading other than \<open>h1\<close> counts). The headings \<open>h1, h2, h4\<close> give one violation and the
  score 80, the headings \<open>h1, h2, h3\<close> none and the score 100.
\<close>

theorem checkHeadingStructure_from_level_0:
  "score (checkHeadingStructure pg)
     = Some (max 0 (100 - 20 * of_nat (level_jumps (0 # heading_levels pg))))
   \<and> (map localName (headings pg) = [''h1'', ''h2'', ''h4'']
        \<longrightarrow> level_jumps (0 # heading_levels pg) = 1
            \<and> score (checkHeadingStructure pg) = Some 80)
   \<and> (map localName (headings pg) = [''h1'', ''h2'', ''h3'']
        \<longrightarrow> level_jumps (0 # heading_levels pg) = 0
            \<and> score (checkHeadingStructure pg) = Some 100)"
proof (intro conjI impI)
  show g: "score (checkHeadingStructure pg)
     = Some (max 0 (100 - 20 * of_nat (level_jumps (0 # heading_levels pg))))"
    by (simp add: checkHeadingStructure_score mult.commute)
  {
    assume "map localName (headings pg) = [''h1'', ''h2'', ''h4'']"
    then have "heading_levels pg = [1, 2, 4]"
      by (auto simp: heading_levels_def level_of_tag_def)
    then show j1: "level_jumps (0 # heading_levels pg) = 1" by simp
    show "score (checkHeadingStructure pg) = Some 80" by (simp add: g j1)
  }
  {
    assume "map localName (headings pg) = [''h1'', ''h2'', ''h3'']"
    then have "heading_levels pg = [1, 2, 3]"
      by (auto simp: heading_levels_def level_of_tag_def)
    then show j0: "level_jumps (0 # heading_levels pg) = 0" by simp
    show "score (checkHeadingStructure pg) = Some 100" by (simp add: g j0)
  }
qed

theorem checkHeadingStructure_witness:
  "score (checkHeadingStructure
     \<lparr>document =
        [\<lparr>localName = ''h1'', attributes = [], textContent = ''Portfolio'', href = [],
          src = [], naturalWidth = 0, offsetWidth = 0\<rparr>,
         \<lparr>localName = ''p'', attributes = [], textContent = ''Welcome'', href = [],
          src = [], naturalWidth = 0, offsetWidth = 0\<rparr>,
         \<lparr>localName = ''h2'', attributes = [], textContent = ''Work'', href = [],
          src = [], naturalWidth = 0, offsetWidth = 0\<rparr>,
         \<lparr>localName = ''h4'', attributes = [], textContent = ''Details'', href = [],
          src = [], naturalWidth = 0, offsetWidth = 0\<rparr>],
      protocol = ''https:''\<rparr>) = Some 80
   \<and> score (checkHeadingStructure
     \<lparr>document =
        [\<lparr>localName = ''h1'', attributes = [], textContent = ''Portfolio'', href = [],
          src = [], naturalWidth = 0, offsetWidth = 0\<rparr>,
         \<lparr>localName = ''h2'', attributes = [], textContent = ''Work'', href = [],
          src = [], naturalWidth = 0, offsetWidth = 0\<rparr>,
         \<lparr>localName = ''h3'', attributes = [], textContent = ''Details'', href = [],
          src = [], naturalWidth = 0, offsetWidth = 0\<rparr>],
      protocol = ''https:''\<rparr>) = Some 100"
proof -
  let ?a = "\<lparr>document =
        [\<lparr>localName = ''h1'', attributes = [], textContent = ''Portfolio'', href = [],
          src = [], naturalWidth = 0, offsetWidth = 0\<rparr>,
         \<lparr>localName = ''p'', attributes = [], textContent = ''Welcome'', href = [],
          src = [], naturalWidth = 0, offsetWidth = 0\<rparr>,
         \<lparr>localName = ''h2'', attributes = [], textContent = ''Work'', href = [],
          src = [], naturalWidth = 0, offsetWidth = 0\<rparr>,
         \<lparr>localName = ''h4'', attributes = [], textContent = ''Details'', href = [],
          src = [], naturalWidth = 0, offsetWidth = 0\<rparr>],
      protocol = ''https:''\<rparr>"
  let ?b = "\<lparr>document =
        [\<lparr>localName = ''h1'', attributes = [], textContent = ''Portfolio'', href = [],
          src = [], naturalWidth = 0, offsetWidth = 0\<rparr>,
         \<lparr>localName = ''h2'', attributes = [], textContent = ''Work'', href = [],
          src = [], naturalWidth = 0, offsetWidth = 0\<rparr>,
         \<lparr>localName = ''h3'', attributes = [], textContent = ''Details'', href = [],
          src = [], naturalWidth = 0, offsetWidth = 0\<rparr>],
      protocol = ''https:''\<rparr>"
  have a: "map localName (headings ?a) = [''h1'', ''h2'', ''h4'']"
    by (simp add: headings_def querySelectorAll_def)
  have b: "map localName (headings ?b) = [''h1'', ''h2'', ''h3'']"
    by (simp add: headings_def querySelectorAll_def)
  have "score (checkHeadingStructure ?a) = Some 80"
    using checkHeadingStructure_from_level_0
            [of ?a, THEN conjunct2, THEN conjunct1, THEN mp, OF a]
    by (rule conjunct2)
  moreover have "score (checkHeadingStructure ?b) = Some 100"
    using checkHeadingStructure_from_level_0
            [of ?b, THEN conjunct2, THEN conjunct2, THEN mp, OF b]
    by (rule conjunct2)
  ultimately show ?thesis by (rule conjI)
qed

section \<open>Double precision\<close>

text \<open>A whole number below \<open>2^53\<close> is a double, and the unit of a given binade is found.\<close>

lemma round_half_even_of_int: "round_half_even (of_int z) = z"
  by (simp add: round_half_even_def)

lemma ulp_search_below:
  assumes "i \<le> E" "E - i \<le> k" "a < 2 ^ 53 / 2 ^ i" "i = E \<or> 2 ^ 52 / 2 ^ i \<le> a"
  shows "ulp_search k (1 / 2 ^ E) a = 1 / 2 ^ i"
  using assms
proof (induction k arbitrary: E)
  case 0
  then show ?case by simp
next
  case (Suc k)
  show ?case
  proof (cases "i = E")
    case True
    with Suc.prems show ?thesis by simp
  next
    case False
    with Suc.prems obtain E' where E: "E = Suc E'" and iE: "i \<le> E'"
      by (cases E) auto
    from False Suc.prems have low: "2 ^ 52 / 2 ^ i \<le> a" by simp
    have "(2::rat) ^ 53 / 2 ^ E \<le> 2 ^ 53 / 2 ^ Suc i"
      using iE E by (intro divide_left_mono power_increasing) auto
    also have "\<dots> = 2 ^ 52 / 2 ^ i" by simp
    finally have "\<not> a < 1 / 2 ^ E * 2 ^ 53" using low by simp
    moreover have "2 * (1 / (2::rat) ^ E) = 1 / 2 ^ E'" by (simp add: E)
    moreover have "ulp_search k (1 / 2 ^ E') a = 1 / 2 ^ i"
      using Suc.prems iE low E by (intro Suc.IH) auto
    ultimately show ?thesis by simp
  qed
qed

lemma ulp_search_dyadic:
  assumes "a < 2 ^ 53"
  shows "\<exists>i\<le>E. ulp_search k (1 / 2 ^ E) a = 1 / 2 ^ i"
  using assms
proof (induction k arbitrary: E)
  case 0
  then show ?case by auto
next
  case (Suc k)
  show ?case
  proof (cases "a < 1 / 2 ^ E * 2 ^ 53")
    case True
    then show ?thesis by auto
  next
    case False
    with Suc.prems obtain E' where E: "E = Suc E'"
      by (cases E) auto
    have "2 * (1 / (2::rat) ^ E) = 1 / 2 ^ E'" by (simp add: E)
    moreover from Suc.IH [OF Suc.prems, of E']
    obtain i where "i \<le> E'" "ulp_search k (1 / 2 ^ E') a = 1 / 2 ^ i" by blast
    ultimately show ?thesis using False E by auto
  qed
qed

lemma ulp_search_skip:
  assumes "2 ^ 53 \<le> a" "E \<le> k"
  shows "ulp_search k (1 / 2 ^ E) a = ulp_search (k - E) 1 a"
  using assms
proof (induction E arbitrary: k)
  case 0
  then show ?case by simp
next
  case (Suc E)
  then obtain k' where k: "k = Suc k'" and "E \<le> k'" by (cases k) auto
  have "(1::rat) \<le> 2 ^ Suc E" by (rule one_le_power) simp
  then have "(1::rat) / 2 ^ Suc E * 2 ^ 53 \<le> 1 * 2 ^ 53"
    by (intro mult_right_mono) (auto simp: divide_le_eq_1)
  with Suc.prems have "\<not> a < 1 / 2 ^ Suc E * 2 ^ 53" by simp
  moreover have "2 * (1 / (2::rat) ^ Suc E) = 1 / 2 ^ E" by simp
  ultimately show ?case
    using Suc.IH [OF Suc.prems(1) \<open>E \<le> k'\<close>] k by simp
qed

lemma ulp_search_above:
  assumes "s \<le> i" "i - s \<le> k" "a < 2 ^ 53 * 2 ^ i" "i = s \<or> 2 ^ 52 * 2 ^ i \<le> a"
  shows "ulp_search k (2 ^ s) a = 2 ^ i"
  using assms
proof (induction k arbitrary: s)
  case 0
  then show ?case by simp
next
  case (Suc k)
  show ?case
  proof (cases "i = s")
    case True
    with Suc.prems show ?thesis by (simp add: mult.commute)
  next
    case False
    with Suc.prems have si: "Suc s \<le> i" and low: "2 ^ 52 * 2 ^ i \<le> a" by auto
    have "(2::rat) ^ s * 2 ^ 53 = 2 ^ 52 * 2 ^ Suc s" by simp
    also have "\<dots> \<le> 2 ^ 52 * 2 ^ i"
      using si by (intro mult_left_mono power_increasing) auto
    finally have "\<not> a < 2 ^ s * 2 ^ 53" using low by simp
    moreover have "ulp_search k (2 ^ Suc s) a = 2 ^ i"
      using Suc.prems si low by (intro Suc.IH) auto
    ultimately show ?thesis by simp
  qed
qed

lemma ulp_below:
  assumes "i \<le> 1074" "\<bar>x\<bar> < 2 ^ 53 / 2 ^ i" "i = 1074 \<or> 2 ^ 52 / 2 ^ i \<le> \<bar>x\<bar>"
  shows "ulp x = 1 / 2 ^ i"
  unfolding ulp_def using assms by (intro ulp_search_below) auto

lemma ulp_above:
  assumes "1 \<le> i" "i \<le> 971" "\<bar>x\<bar> < 2 ^ 53 * 2 ^ i" "2 ^ 52 * 2 ^ i \<le> \<bar>x\<bar>"
  shows "ulp x = 2 ^ i"
proof -
  have "(2::rat) ^ 1 \<le> 2 ^ i" using assms(1) by (intro power_increasing) auto
  then have "(2::rat) ^ 53 \<le> 2 ^ 52 * 2 ^ i" by simp
  with assms have big: "2 ^ 53 \<le> \<bar>x\<bar>" by linarith
  have "ulp x = ulp_search (2045 - 1074) 1 \<bar>x\<bar>"
    unfolding ulp_def using big by (intro ulp_search_skip) auto
  also have "\<dots> = ulp_search 971 (2 ^ 0) \<bar>x\<bar>" by simp
  also have "\<dots> = 2 ^ i" using assms by (intro ulp_search_above) auto
  finally show ?thesis .
qed

lemma of_nat_below_2_53:
  assumes "n < 2 ^ 53"
  shows "(of_nat n :: rat) < 2 ^ 53"
proof -
  have "(of_nat n :: rat) < of_nat (2 ^ 53)" using assms by (simp only: of_nat_less_iff)
  also have "(of_nat (2 ^ 53) :: rat) = 2 ^ 53" by simp
  finally show ?thesis .
qed

lemma ulp_of_nat:
  assumes "n < 2 ^ 53"
  shows "\<exists>i. ulp (of_nat n) = 1 / 2 ^ i"
proof -
  have "\<bar>of_nat n :: rat\<bar> < 2 ^ 53"
    using of_nat_below_2_53 [OF assms] by simp
  from ulp_search_dyadic [OF this] show ?thesis unfolding ulp_def by blast
qed

lemma round_double_of_nat:
  assumes "n < 2 ^ 53"
  shows "round_double (of_nat n) = of_nat n"
proof -
  from ulp_of_nat [OF assms] obtain i where u: "ulp (of_nat n) = 1 / 2 ^ i" by blast
  have q: "(of_nat n :: rat) / (1 / 2 ^ i) = of_int (int n * 2 ^ i)" by simp
  have "round_double (of_nat n) = 1 / 2 ^ i * of_int (round_half_even (of_int (int n * 2 ^ i)))"
    unfolding round_double_def u q ..
  also have "\<dots> = 1 / 2 ^ i * of_int (int n * 2 ^ i)"
    by (simp only: round_half_even_of_int)
  also have "\<dots> = of_nat n" by simp
  finally show ?thesis .
qed

lemma to_double_of_nat:
  assumes "n < 2 ^ 53"
  shows "to_double (of_nat n) = Num (of_nat n)"
proof -
  have "(2::rat) ^ 53 \<le> 2 ^ 1024" by (intro power_increasing) auto
  with of_nat_below_2_53 [OF assms] have "\<not> 2 ^ 1024 \<le> (of_nat n :: rat)" by linarith
  moreover have "- (2 ^ 1024) < (0::rat)" by simp
  then have "\<not> (of_nat n :: rat) \<le> - (2 ^ 1024)"
    using of_nat_0_le_iff [of n, where 'a = rat] by linarith
  ultimately show ?thesis
    unfolding to_double_def round_double_of_nat [OF assms] Let_def by simp
qed

text \<open>Whole numbers add exactly while the sum stays below \<open>2^53\<close>.\<close>

lemma double_fold_of_nat:
  assumes "a + sum_list ns < 2 ^ 53"
  shows "foldl (\<lambda>sum x. js_plus sum (Num x)) (Num (of_nat a)) (map of_nat ns)
           = Num (of_nat (a + sum_list ns))"
  using assms
proof (induction ns arbitrary: a)
  case Nil
  then show ?case by simp
next
  case (Cons n ns)
  then have "a + n < 2 ^ 53" by simp
  then have "js_plus (Num (of_nat a)) (Num (of_nat n)) = Num (of_nat (a + n))"
    using to_double_of_nat [of "a + n"] by simp
  moreover from Cons.prems have "(a + n) + sum_list ns < 2 ^ 53" by simp
  ultimately show ?case using Cons.IH [of "a + n"] by (simp add: add.assoc)
qed

lemma double_sum_of_nat:
  assumes "sum_list ns < 2 ^ 53"
  shows "double_sum (map of_nat ns) = Num (of_nat (sum_list ns))"
  using double_fold_of_nat [of 0 ns] assms by (simp add: double_sum_def)

lemma js_quot_of_nat:
  assumes "s < 2 ^ 53" "n dvd s" "0 < n"
  shows "js_quot (Num (of_nat s)) (Num (of_nat n)) = Num (of_nat s / of_nat n)"
proof -
  from assms(2) obtain q where s: "s = n * q" by (auto simp: dvd_def)
  with assms have "q < 2 ^ 53"
    by (metis One_nat_def Suc_leI le_trans less_le_trans linorder_not_less mult.commute mult_le_mono2 nat_mult_1_right)
  have "(of_nat s :: rat) / of_nat n = of_nat q" using assms(3) by (simp add: s)
  then show ?thesis using assms(3) to_double_of_nat [OF \<open>q < 2 ^ 53\<close>] by simp
qed

section \<open>Resource summary\<close>

lemma map_of_group_bucket:
  "map_of (group_bucket acc x) =
     (map_of acc)(res_type x \<mapsto>
        (let s = (case map_of acc (res_type x) of
                    None \<Rightarrow> \<lparr>count = 0, totalSize = Num 0, averageTime = Num 0, items = []\<rparr>
                  | Some s \<Rightarrow> s)
         in s\<lparr>count := count s + 1,
               totalSize := js_plus (totalSize s) (Num (of_nat (res_size x))),
               items := items s @ [x]\<rparr>))"
  by (auto simp: group_bucket_def Let_def map_of_map_entry AList.update_conv' fun_eq_iff
      split: option.splits)

lemma keys_group_bucket: "fst ` set (group_bucket acc x) = insert (res_type x) (fst ` set acc)"
  by (auto simp: group_bucket_def Let_def AList.dom_map_entry AList.dom_update
      split: option.splits dest: map_of_SomeD weak_map_of_SomeI
      simp: map_of_eq_None_iff [symmetric] rev_image_eqI)

lemma distinct_group_bucket:
  "distinct (map fst acc) \<Longrightarrow> distinct (map fst (group_bucket acc x))"
  by (simp add: group_bucket_def Let_def AList.distinct_map_entry AList.distinct_update
      split: option.splits)

lemma double_sum_snoc: "double_sum (xs @ [x]) = js_plus (double_sum xs) (Num x)"
  by (simp add: double_sum_def)

lemma raw_bucket_snoc:
  "raw_bucket t (es @ [x]) =
     (if res_type x = t
      then (raw_bucket t es)\<lparr>count := count (raw_bucket t es) + 1,
                              totalSize := js_plus (totalSize (raw_bucket t es))
                                                   (Num (of_nat (res_size x))),
                              items := items (raw_bucket t es) @ [x]\<rparr>
      else raw_bucket t es)"
  by (simp add: raw_bucket_def of_type_def double_sum_snoc)

lemma raw_bucket_absent:
  assumes "t \<notin> set (map res_type es)"
  shows "raw_bucket t es = \<lparr>count = 0, totalSize = Num 0, averageTime = Num 0, items = []\<rparr>"
proof -
  from assms have "of_type t es = []"
    by (auto simp: of_type_def filter_empty_conv)
  then show ?thesis by (simp add: raw_bucket_def double_sum_def)
qed

text \<open>The first pass keeps one bucket per type seen, with its count, size and items.\<close>

lemma grouped_inv_step:
  assumes "grouped_inv acc es"
  shows "grouped_inv (group_bucket acc x) (es @ [x])"
proof -
  from assms have d: "distinct (map fst acc)"
    and k: "set (map fst acc) = set (map res_type es)"
    and m: "\<And>t. map_of acc t
               = (if t \<in> set (map res_type es) then Some (raw_bucket t es) else None)"
    by (simp_all add: grouped_inv_def)
  have "distinct (map fst (group_bucket acc x))" using d by (rule distinct_group_bucket)
  moreover have "set (map fst (group_bucket acc x)) = set (map res_type (es @ [x]))"
    using k keys_group_bucket [of acc x] by auto
  moreover have "map_of (group_bucket acc x) t
      = (if t \<in> set (map res_type (es @ [x])) then Some (raw_bucket t (es @ [x])) else None)"
    for t
  proof (cases "t = res_type x")
    case True
    show ?thesis
    proof (cases "res_type x \<in> set (map res_type es)")
      case True
      with \<open>t = res_type x\<close> show ?thesis
        by (simp add: map_of_group_bucket m raw_bucket_snoc Let_def)
    next
      case False
      with \<open>t = res_type x\<close> show ?thesis
        using raw_bucket_absent [OF False]
        by (simp add: map_of_group_bucket m raw_bucket_snoc Let_def)
    qed
  next
    case False
    then show ?thesis
      by (auto simp add: map_of_group_bucket m raw_bucket_snoc)
  qed
  ultimately show ?thesis unfolding grouped_inv_def by blast
qed

lemma grouped_inv_foldl: "grouped_inv (foldl group_bucket [] es) es"
proof (induction es rule: rev_induct)
  case Nil
  show ?case by (simp add: grouped_inv_def)
next
  case (snoc x xs)
  then show ?case by (simp add: grouped_inv_step)
qed

text \<open>The \<open>reduce\<close> throws at the first inherited type and is the plain fold without one.\<close>

lemma group_all_plain:
  assumes "\<forall>x \<in> set xs. \<not> inherited_property (res_type x)"
  shows "group_all acc xs = Inr (foldl group_bucket acc xs)"
  using assms by (induction xs arbitrary: acc) (simp_all add: group_step_def)

lemma group_all_inherited:
  assumes "\<exists>x \<in> set xs. inherited_property (res_type x)"
  shows "group_all acc xs = Inl TypeError"
  using assms by (induction xs arbitrary: acc) (auto simp: group_step_def)

text \<open>The second pass writes the average into every bucket and changes nothing else.\<close>

lemma map_of_average_step:
  "map_of (average_step sm t) = (map_of sm)(t := map_option with_average (map_of sm t))"
  by (auto simp: average_step_def map_of_map_entry with_average_def fun_eq_iff
      split: option.splits)

lemma keys_average_step: "map fst (average_step sm t) = map fst sm"
  unfolding average_step_def by (induction sm) auto

lemma keys_average_foldl: "map fst (foldl average_step sm ts) = map fst sm"
  by (induction ts arbitrary: sm) (simp_all add: keys_average_step)

lemma map_of_average_foldl:
  assumes "distinct ts"
  shows "map_of (foldl average_step sm ts) t
           = (if t \<in> set ts then map_option with_average (map_of sm t) else map_of sm t)"
  using assms
proof (induction ts arbitrary: sm)
  case Nil
  show ?case by simp
next
  case (Cons k ks)
  then have "map_of (foldl average_step (average_step sm k) ks) t
      = (if t \<in> set ks then map_option with_average (map_of (average_step sm k) t)
         else map_of (average_step sm k) t)"
    by simp
  with Cons.prems show ?case
    by (auto simp: map_of_average_step)
qed

lemma duration_foldl:
  "foldl (\<lambda>sum item. js_plus sum (Num (res_duration item))) acc es
     = foldl (\<lambda>sum x. js_plus sum (Num x)) acc (map res_duration es)"
  by (induction es arbitrary: acc) simp_all

lemma with_average_raw_bucket: "with_average (raw_bucket t es) = bucket_of t es"
  by (simp add: with_average_def raw_bucket_def bucket_of_def duration_foldl double_sum_def)

lemma summary_of_entries:
  fixes es :: "ResourceEntry list"
  defines "sm \<equiv> foldl average_step (foldl group_bucket [] es)
                  (Object_keys (foldl group_bucket [] es))"
  shows "distinct (map fst sm)"
    and "set (map fst sm) = set (map res_type es)"
    and "map_of sm t = (if t \<in> set (map res_type es) then Some (bucket_of t es) else None)"
proof -
  let ?g = "foldl group_bucket [] es"
  have inv: "grouped_inv ?g es" by (rule grouped_inv_foldl)
  then have d: "distinct (map fst ?g)" and k: "set (map fst ?g) = set (map res_type es)"
    and m: "\<And>t. map_of ?g t
               = (if t \<in> set (map res_type es) then Some (raw_bucket t es) else None)"
    by (simp_all add: grouped_inv_def)
  have keys: "map fst sm = map fst ?g"
    by (simp add: sm_def keys_average_foldl)
  show "distinct (map fst sm)" using d keys by simp
  show "set (map fst sm) = set (map res_type es)" using k keys by simp
  have "map_of sm t = (if t \<in> set (map fst ?g) then map_option with_average (map_of ?g t)
                       else map_of ?g t)"
    unfolding sm_def Object_keys_def using d by (rule map_of_average_foldl)
  then show "map_of sm t
               = (if t \<in> set (map res_type es) then Some (bucket_of t es) else None)"
    using with_average_raw_bucket [of t es] k m [of t]
    by (cases "t \<in> set (map res_type es)") simp_all
qed

lemma mapped_entry_of:
  "map (\<lambda>resource. \<lparr>res_name = entry_name resource, res_duration = entry_duration resource,
                      res_size = (case transferSize resource of None \<Rightarrow> 0 | Some n \<Rightarrow> n),
                      res_type = initiatorType resource\<rparr>) rs = map entry_of rs"
  by (simp add: entry_of_def)

lemma measureResources_plain:
  assumes "\<forall>r \<in> set rs. \<not> inherited_property (initiatorType r)"
  shows "measureResources (Some rs) m =
     (Inr (Some (map entry_of rs)),
      m\<lparr>resources := Some (map entry_of rs),
        resourceSummary := Some (foldl average_step (foldl group_bucket [] (map entry_of rs))
                                   (Object_keys (foldl group_bucket [] (map entry_of rs))))\<rparr>)"
proof -
  from assms have "\<forall>x \<in> set (map entry_of rs). \<not> inherited_property (res_type x)"
    by (simp add: entry_of_def)
  then have "group_all [] (map entry_of rs) = Inr (foldl group_bucket [] (map entry_of rs))"
    by (rule group_all_plain)
  then show ?thesis
    by (simp add: measureResources_def mapped_entry_of Let_def)
qed

text \<open>A resource whose type is an inherited name: the call throws, no summary is stored.\<close>

lemma measureResources_inherited:
  assumes "\<exists>r \<in> set rs. inherited_property (initiatorType r)"
  shows "measureResources (Some rs) m = (Inl TypeError, m\<lparr>resources := Some (map entry_of rs)\<rparr>)"
proof -
  from assms have "\<exists>x \<in> set (map entry_of rs). inherited_property (res_type x)"
    by (simp add: entry_of_def)
  then have "group_all [] (map entry_of rs) = Inl TypeError"
    by (rule group_all_inherited)
  then show ?thesis
    by (simp add: measureResources_def mapped_entry_of Let_def)
qed

lemma measureResources_constructor:
  "measureResources
     (Some [\<lparr>entry_name = n, entry_duration = d, transferSize = s,
             initiatorType = ''constructor''\<rparr>]) m
   = (Inl TypeError,
      m\<lparr>resources := Some [\<lparr>res_name = n, res_duration = d,
                             res_size = (case s of None \<Rightarrow> 0 | Some k \<Rightarrow> k),
                             res_type = ''constructor''\<rparr>]\<rparr>)"
  by (simp add: measureResources_def Let_def group_step_def inherited_property_def)

lemma bucket_total_exact:
  assumes "sum_list (map res_size (of_type t es)) < 2 ^ 53"
  shows "totalSize (bucket_of t es) = Num (of_nat (sum_list (map res_size (of_type t es))))"
proof -
  have "map (\<lambda>e. of_nat (res_size e)) (of_type t es)
          = (map of_nat (map res_size (of_type t es)) :: rat list)"
    by simp
  then have "totalSize (bucket_of t es) = double_sum (map of_nat (map res_size (of_type t es)))"
    by (simp only: bucket_of_def summary.simps)
  then show ?thesis by (simp only: double_sum_of_nat [OF assms])
qed

lemma bucket_average_exact:
  assumes "map res_duration (of_type t es) = map of_nat ds"
    and "of_type t es \<noteq> []"
    and "sum_list ds < 2 ^ 53"
    and "length ds dvd sum_list ds"
  shows "averageTime (bucket_of t es)
           = Num (sum_list (map res_duration (of_type t es)) / of_nat (length (of_type t es)))"
proof -
  from assms(1) have len: "length (of_type t es) = length ds"
    by (metis length_map)
  with assms(2) have pos: "0 < length ds" by auto
  have "averageTime (bucket_of t es)
          = js_quot (Num (of_nat (sum_list ds))) (Num (of_nat (length ds)))"
    using double_sum_of_nat [OF assms(3)] by (simp add: bucket_of_def assms(1) len)
  also have "\<dots> = Num (of_nat (sum_list ds) / of_nat (length ds))"
    using assms(3,4) pos by (rule js_quot_of_nat)
  also have "(of_nat (sum_list ds) :: rat) = sum_list (map of_nat ds)"
    by (induction ds) simp_all
  finally show ?thesis by (simp add: assms(1) len)
qed

lemma to_double_numeral:
  "numeral k < (2::nat) ^ 53 \<Longrightarrow> to_double (numeral k) = Num (numeral k)"
  using to_double_of_nat [of "numeral k"] by simp

lemma to_double_0: "to_double 0 = Num 0"
  using to_double_of_nat [of 0] by simp

lemma to_double_1: "to_double 1 = Num 1"
  using to_double_of_nat [of 1] by simp

text \<open>The double nearest to one tenth, added three times and divided by three.\<close>

lemma tenth_sum_1:
  "to_double (3602879701896397 / 36028797018963968) = Num (3602879701896397 / 36028797018963968)"
proof -
  have u: "ulp (3602879701896397 / 36028797018963968) = 1 / 2 ^ 56"
    by (rule ulp_below) simp_all
  show ?thesis
    by (simp add: to_double_def round_double_def u round_half_even_def Let_def floor_rat)
qed

lemma tenth_sum_2:
  "to_double (3602879701896397 / 18014398509481984) = Num (3602879701896397 / 18014398509481984)"
proof -
  have u: "ulp (3602879701896397 / 18014398509481984) = 1 / 2 ^ 55"
    by (rule ulp_below) simp_all
  show ?thesis
    by (simp add: to_double_def round_double_def u round_half_even_def Let_def floor_rat)
qed

lemma tenth_sum_3:
  "to_double (10808639105689191 / 36028797018963968) = Num (1351079888211149 / 4503599627370496)"
proof -
  have u: "ulp (10808639105689191 / 36028797018963968) = 1 / 2 ^ 54"
    by (rule ulp_below) simp_all
  show ?thesis
    by (simp add: to_double_def round_double_def u round_half_even_def Let_def floor_rat)
qed

lemma tenth_mean:
  "to_double (1351079888211149 / 13510798882111488) = Num (7205759403792795 / 72057594037927936)"
proof -
  have u: "ulp (1351079888211149 / 13510798882111488) = 1 / 2 ^ 56"
    by (rule ulp_below) simp_all
  show ?thesis
    by (simp add: to_double_def round_double_def u round_half_even_def Let_def floor_rat)
qed

lemma big_sum_1: "to_double 9007199254740992 = Num 9007199254740992"
proof -
  have u: "ulp 9007199254740992 = 2 ^ 1"
    by (rule ulp_above) simp_all
  show ?thesis
    by (simp add: to_double_def round_double_def u round_half_even_def Let_def floor_rat)
qed

lemma big_sum_2: "to_double 9007199254740993 = Num 9007199254740992"
proof -
  have u: "ulp 9007199254740993 = 2 ^ 1"
    by (rule ulp_above) simp_all
  show ?thesis
    by (simp add: to_double_def round_double_def u round_half_even_def Let_def floor_rat)
qed

lemmas resource_eval =
  measureResources_def Let_def group_step_def group_bucket_def average_step_def
  Object_keys_def inherited_property_def

text \<open>
  C9, as the specification states it, fails where the arithmetic of doubles is not exact.
  Three scripts whose duration is the double nearest to one tenth have that double as
  the arithmetic mean of their durations; the running sum is rounded at the third
  addition and the quotient again, and the average time stored is the next double above
  it (0.10000000000000002). Likewise the sizes \<open>2^53\<close> and 1 give the total size \<open>2^53\<close>.
\<close>

theorem measureResources_rounding_counterexample:
  "resourceSummary (snd (measureResources
      (Some [\<lparr>entry_name = ''a.js'', entry_duration = 3602879701896397 / 36028797018963968,
              transferSize = None, initiatorType = ''script''\<rparr>,
             \<lparr>entry_name = ''b.js'', entry_duration = 3602879701896397 / 36028797018963968,
              transferSize = None, initiatorType = ''script''\<rparr>,
             \<lparr>entry_name = ''c.js'', entry_duration = 3602879701896397 / 36028797018963968,
              transferSize = None, initiatorType = ''script''\<rparr>])
      \<lparr>resources = None, resourceSummary = None, fps = None, audit = None\<rparr>))
   = Some [(''script'',
            \<lparr>count = 3, totalSize = Num 0,
             averageTime = Num (7205759403792795 / 72057594037927936),
             items = [\<lparr>res_name = ''a.js'', res_duration = 3602879701896397 / 36028797018963968,
                       res_size = 0, res_type = ''script''\<rparr>,
                      \<lparr>res_name = ''b.js'', res_duration = 3602879701896397 / 36028797018963968,
                       res_size = 0, res_type = ''script''\<rparr>,
                      \<lparr>res_name = ''c.js'', res_duration = 3602879701896397 / 36028797018963968,
                       res_size = 0, res_type = ''script''\<rparr>]\<rparr>)]
   \<and> sum_list [3602879701896397 / 36028797018963968, 3602879701896397 / 36028797018963968,
                3602879701896397 / 36028797018963968] / 3
       = (3602879701896397 / 36028797018963968 :: rat)
   \<and> resourceSummary (snd (measureResources
      (Some [\<lparr>entry_name = ''a.bin'', entry_duration = 1,
              transferSize = Some 9007199254740992, initiatorType = ''fetch''\<rparr>,
             \<lparr>entry_name = ''b.bin'', entry_duration = 1,
              transferSize = Some 1, initiatorType = ''fetch''\<rparr>])
      \<lparr>resources = None, resourceSummary = None, fps = None, audit = None\<rparr>))
   = Some [(''fetch'',
            \<lparr>count = 2, totalSize = Num 9007199254740992, averageTime = Num 1,
             items = [\<lparr>res_name = ''a.bin'', res_duration = 1,
                       res_size = 9007199254740992, res_type = ''fetch''\<rparr>,
                      \<lparr>res_name = ''b.bin'', res_duration = 1,
                       res_size = 1, res_type = ''fetch''\<rparr>]\<rparr>)]"
  by (simp add: resource_eval to_double_0 to_double_1 to_double_numeral tenth_sum_1 tenth_sum_2 tenth_sum_3
      tenth_mean big_sum_1 big_sum_2)

text \<open>
  C9, amended. For every list of resource-timing entries none of whose types is the name
  of a property that an object inherits, the summary that \<open>measureResources\<close> stores has
  exactly one bucket for each type that occurs. The bucket of a type holds the number of
  the entries of the type, the entries themselves, the sum of their sizes taken in double
  precision in the order of the entries, and the double-precision quotient of the sum of
  their durations, taken likewise, by their number. The total size is the exact sum
  when that is below \<open>2^53\<close>, and the average time is the arithmetic mean when the
  durations are whole numbers whose sum is below \<open>2^53\<close> and a multiple of their number.
  Two entries of type \<open>script\<close> with the durations 100 and 300 and the sizes 10 and 20
  give the count 2, the total size 30 and the average time 200.
\<close>

theorem measureResources_summary:
  "((\<forall>r \<in> set rs. \<not> inherited_property (initiatorType r)) \<longrightarrow>
      (\<exists>sm. measureResources (Some rs) m
               = (Inr (Some (map entry_of rs)),
                  m\<lparr>resources := Some (map entry_of rs), resourceSummary := Some sm\<rparr>)
           \<and> distinct (map fst sm)
           \<and> set (map fst sm) = set (map initiatorType rs)
           \<and> (\<forall>t. map_of sm t = (if t \<in> set (map initiatorType rs)
                                  then Some (bucket_of t (map entry_of rs)) else None))))
   \<and> count (bucket_of t es) = length (of_type t es)
   \<and> items (bucket_of t es) = of_type t es
   \<and> totalSize (bucket_of t es) = double_sum (map (\<lambda>e. of_nat (res_size e)) (of_type t es))
   \<and> averageTime (bucket_of t es)
       = js_quot (double_sum (map res_duration (of_type t es)))
                 (Num (of_nat (length (of_type t es))))
   \<and> (sum_list (map res_size (of_type t es)) < 2 ^ 53 \<longrightarrow>
        totalSize (bucket_of t es) = Num (of_nat (sum_list (map res_size (of_type t es)))))
   \<and> (map res_duration (of_type t es) = map of_nat ds \<and> of_type t es \<noteq> []
        \<and> sum_list ds < 2 ^ 53 \<and> length ds dvd sum_list ds \<longrightarrow>
        averageTime (bucket_of t es)
          = Num (sum_list (map res_duration (of_type t es)) / of_nat (length (of_type t es))))
   \<and> resourceSummary (snd (measureResources
        (Some [\<lparr>entry_name = n1, entry_duration = 100, transferSize = Some 10,
                initiatorType = ''script''\<rparr>,
               \<lparr>entry_name = n2, entry_duration = 300, transferSize = Some 20,
                initiatorType = ''script''\<rparr>]) m))
      = Some [(''script'',
               \<lparr>count = 2, totalSize = Num 30, averageTime = Num 200,
                items = [\<lparr>res_name = n1, res_duration = 100, res_size = 10,
                          res_type = ''script''\<rparr>,
                         \<lparr>res_name = n2, res_duration = 300, res_size = 20,
                          res_type = ''script''\<rparr>]\<rparr>)]"
proof (intro conjI impI)
  assume plain: "\<forall>r \<in> set rs. \<not> inherited_property (initiatorType r)"
  have t: "map res_type (map entry_of rs) = map initiatorType rs"
    by (simp add: entry_of_def)
  show "\<exists>sm. measureResources (Some rs) m
               = (Inr (Some (map entry_of rs)),
                  m\<lparr>resources := Some (map entry_of rs), resourceSummary := Some sm\<rparr>)
           \<and> distinct (map fst sm)
           \<and> set (map fst sm) = set (map initiatorType rs)
           \<and> (\<forall>t. map_of sm t = (if t \<in> set (map initiatorType rs)
                                  then Some (bucket_of t (map entry_of rs)) else None))"
    using summary_of_entries [of "map entry_of rs"] measureResources_plain [OF plain, of m]
    unfolding t by blast
next
  assume "sum_list (map res_size (of_type t es)) < 2 ^ 53"
  then show "totalSize (bucket_of t es) = Num (of_nat (sum_list (map res_size (of_type t es))))"
    by (rule bucket_total_exact)
next
  assume "map res_duration (of_type t es) = map of_nat ds \<and> of_type t es \<noteq> []
        \<and> sum_list ds < 2 ^ 53 \<and> length ds dvd sum_list ds"
  then show "averageTime (bucket_of t es)
          = Num (sum_list (map res_duration (of_type t es)) / of_nat (length (of_type t es)))"
    by (intro bucket_average_exact [of t es ds]) simp_all
next
  show "resourceSummary (snd (measureResources
        (Some [\<lparr>entry_name = n1, entry_duration = 100, transferSize = Some 10,
                initiatorType = ''script''\<rparr>,
               \<lparr>entry_name = n2, entry_duration = 300, transferSize = Some 20,
                initiatorType = ''script''\<rparr>]) m))
      = Some [(''script'',
               \<lparr>count = 2, totalSize = Num 30, averageTime = Num 200,
                items = [\<lparr>res_name = n1, res_duration = 100, res_size = 10,
                          res_type = ''script''\<rparr>,
                         \<lparr>res_name = n2, res_duration = 300, res_size = 20,
                          res_type = ''script''\<rparr>]\<rparr>)]"
    by (simp add: resource_eval to_double_0 to_double_1 to_double_numeral)
qed (simp_all add: bucket_of_def)

theorem measureResources_witness:
  "\<exists>sm. measureResources
           (Some [\<lparr>entry_name = ''app.js'', entry_duration = 100, transferSize = Some 10,
                   initiatorType = ''script''\<rparr>,
                  \<lparr>entry_name = ''logo.png'', entry_duration = 50, transferSize = None,
                   initiatorType = ''img''\<rparr>,
                  \<lparr>entry_name = ''lib.js'', entry_duration = 300, transferSize = Some 20,
                   initiatorType = ''script''\<rparr>])
           \<lparr>resources = None, resourceSummary = None, fps = None, audit = None\<rparr>
         = (Inr (Some [\<lparr>res_name = ''app.js'', res_duration = 100, res_size = 10,
                        res_type = ''script''\<rparr>,
                       \<lparr>res_name = ''logo.png'', res_duration = 50, res_size = 0,
                        res_type = ''img''\<rparr>,
                       \<lparr>res_name = ''lib.js'', res_duration = 300, res_size = 20,
                        res_type = ''script''\<rparr>]),
            \<lparr>resources = Some [\<lparr>res_name = ''app.js'', res_duration = 100, res_size = 10,
                                 res_type = ''script''\<rparr>,
                                \<lparr>res_name = ''logo.png'', res_duration = 50, res_size = 0,
                                 res_type = ''img''\<rparr>,
                                \<lparr>res_name = ''lib.js'', res_duration = 300, res_size = 20,
                                 res_type = ''script''\<rparr>],
             resourceSummary = Some sm, fps = None, audit = None\<rparr>)
       \<and> set (map fst sm) = {''script'', ''img''}
       \<and> map_option count (map_of sm ''script'') = Some 2
       \<and> map_option totalSize (map_of sm ''script'') = Some (Num 30)
       \<and> map_option averageTime (map_of sm ''script'') = Some (Num 200)"
proof -
  let ?rs = "[\<lparr>entry_name = ''app.js'', entry_duration = 100, transferSize = Some 10,
                   initiatorType = ''script''\<rparr>,
                  \<lparr>entry_name = ''logo.png'', entry_duration = 50, transferSize = None,
                   initiatorType = ''img''\<rparr>,
                  \<lparr>entry_name = ''lib.js'', entry_duration = 300, transferSize = Some 20,
                   initiatorType = ''script''\<rparr>]"
  let ?m = "\<lparr>resources = None, resourceSummary = None, fps = None, audit = None\<rparr>"
  note T = measureResources_summary
             [where rs = ?rs and m = ?m and t = "''script''" and es = "map entry_of ?rs"
                and ds = "[100, 300]"]
  have h1: "\<forall>r \<in> set ?rs. \<not> inherited_property (initiatorType r)"
    by (simp add: inherited_property_def)
  have h2: "sum_list (map res_size (of_type ''script'' (map entry_of ?rs))) < 2 ^ 53"
    by (simp add: of_type_def entry_of_def)
  have d: "length [100, 300 :: nat] dvd sum_list [100, 300]"
  proof -
    have "length [100, 300 :: nat] = 2" by simp
    moreover have "sum_list [100, 300 :: nat] = 400" by simp
    moreover have "(2::nat) dvd 400" by simp
    ultimately show ?thesis by (simp only:)
  qed
  have h3: "map res_duration (of_type ''script'' (map entry_of ?rs)) = map of_nat [100, 300]
            \<and> of_type ''script'' (map entry_of ?rs) \<noteq> []
            \<and> sum_list [100, 300] < (2::nat) ^ 53
            \<and> length [100, 300 :: nat] dvd sum_list [100, 300]"
    by (intro conjI d) (simp_all add: of_type_def entry_of_def)
  from T [THEN conjunct1, THEN mp, OF h1] obtain sm where
    run: "measureResources (Some ?rs) ?m
            = (Inr (Some (map entry_of ?rs)),
               ?m\<lparr>resources := Some (map entry_of ?rs), resourceSummary := Some sm\<rparr>)"
    and keys: "set (map fst sm) = set (map initiatorType ?rs)"
    and look: "\<And>t. map_of sm t = (if t \<in> set (map initiatorType ?rs)
                                    then Some (bucket_of t (map entry_of ?rs)) else None)"
    by blast
  have c: "count (bucket_of ''script'' (map entry_of ?rs)) = 2"
    using T [THEN conjunct2, THEN conjunct1] by (simp add: of_type_def entry_of_def)
  have s: "totalSize (bucket_of ''script'' (map entry_of ?rs)) = Num 30"
    using T [THEN conjunct2, THEN conjunct2, THEN conjunct2, THEN conjunct2, THEN conjunct2,
             THEN conjunct1, THEN mp, OF h2]
    by (simp add: of_type_def entry_of_def)
  have a: "averageTime (bucket_of ''script'' (map entry_of ?rs)) = Num 200"
    using T [THEN conjunct2, THEN conjunct2, THEN conjunct2, THEN conjunct2, THEN conjunct2,
             THEN conjunct2, THEN conjunct1, THEN mp, OF h3]
    by (simp add: of_type_def entry_of_def)
  have l: "map_of sm ''script'' = Some (bucket_of ''script'' (map entry_of ?rs))"
    by (simp add: look)
  have "set (map fst sm) = {''script'', ''img''}" using keys by auto
  with run c s a l show ?thesis
    by (intro exI [of _ sm]) (simp add: entry_of_def)
qed

section \<open>Frame rate\<close>

text \<open>
  Once \<open>startTime\<close> holds a time stamp other than zero, the callback counts the frames
  of the window that starts there.
\<close>

lemma measureFrame_started:
  assumes "s \<noteq> 0"
  shows "measureFrame d n (Some s) ts = map_option (fps_of_frames d) (frames_until (s + d) n ts)"
  using assms
proof (induction ts arbitrary: n)
  case Nil
  show ?case by simp
next
  case (Cons t ts)
  have "t - s < d \<longleftrightarrow> t < s + d" by auto
  with Cons show ?case
    by (simp add: Let_def fps_of_frames_def)
qed

lemma measureFrame_nonzero_first:
  assumes "first \<noteq> 0"
  shows "measureFrame d 0 None (first # later) = fps_first_callback_window d (first # later)"
proof -
  have "first - first < d \<longleftrightarrow> first < first + d" by auto
  then show ?thesis
    using measureFrame_started [OF assms, of d 1 later]
    by (simp add: Let_def fps_first_callback_window_def fps_of_frames_def)
qed

text \<open>
  Sixty callbacks spread evenly over a window of 1000 ms, the first at its start and the
  last at its end: the result is 60 when the first time stamp is 5, and the promise is
  never resolved when the first time stamp is 0.
\<close>

lemma measureFrame_sixty_callbacks:
  "measureFrame 1000 0 None (map (\<lambda>k. 5 + of_nat k * 1000 / 59) [0..<60]) = Some (Num 60)"
  by code_simp

lemma measureFrame_sixty_callbacks_from_zero:
  "measureFrame 1000 0 None (map (\<lambda>k. of_nat k * 1000 / 59) [0..<60]) = None"
  by code_simp

lemma fps_first_callback_window_sixty_from_zero:
  "fps_first_callback_window 1000 (map (\<lambda>k. of_nat k * 1000 / 59) [0..<60]) = Some (Num 60)"
  by code_simp

text \<open>
  C8. The window does not start at the time stamp of the first callback when that time
  stamp is zero: \<open>!startTime\<close> is then still true at the next callback, which moves the
  start. With callbacks at 0, 500, 1000 and 1500 and a duration of 1000 the window of the
  specification ends at 1000, where the third callback resolves with 3; the code
  resolves at the fourth callback with 4.
\<close>

theorem measureFPS_zero_first_timestamp:
  "measureFPS 1000 [0, 500, 1000, 1500] m = Some (Num 4, m\<lparr>fps := Some (Num 4)\<rparr>)
   \<and> fps_first_callback_window 1000 [0, 500, 1000, 1500] = Some (Num 3)"
  by (simp add: measureFPS_def Let_def fps_first_callback_window_def fps_of_frames_def
      Math_round_def floor_rat)

end
